(* ===== verification/Prelude.thy ===== *)
theory Prelude
  imports Complex_Main
begin

text \<open>
  Shared vocabulary of the development: the JavaScript built-ins the widgets call
  (\<open>Number.prototype.toString\<close> on naturals, \<open>String.prototype.padStart\<close>,
  \<open>parseInt\<close>, \<open>String.prototype.split\<close> on one character, \<open>Math.round\<close>), the
  type names of the model, and the lemmas on them that the component theories use.
  None of these definitions is code of the repository: they fix the meaning of the
  library calls the repository makes.
\<close>

named_theorems js_simps "evaluation rules of the modelled JavaScript built-ins"

type_synonym ms = nat \<comment> \<open>a non-negative duration or instant in milliseconds\<close>

subsection \<open>Decimal digits\<close>

definition is_digit :: "char \<Rightarrow> bool" where
  "is_digit c \<longleftrightarrow> (48::nat) \<le> of_char c \<and> of_char c \<le> (57::nat)"

definition digit_val :: "char \<Rightarrow> nat" where
  "digit_val c = of_char c - 48"

definition digit_char :: "nat \<Rightarrow> char" where
  "digit_char d = char_of (48 + d)"

text \<open>\<open>n.toString()\<close> for a non-negative integer \<open>n\<close>.\<close>

fun show_nat :: "nat \<Rightarrow> string" where
  "show_nat n = (if n < 10 then [digit_char n] else show_nat (n div 10) @ [digit_char (n mod 10)])"

declare show_nat.simps [simp del]

text \<open>\<open>s.padStart(n, c)\<close> with a one-character pad string.\<close>

definition pad_start :: "nat \<Rightarrow> char \<Rightarrow> string \<Rightarrow> string" where
  "pad_start n c s = replicate (n - length s) c @ s"

subsection \<open>\<open>parseInt\<close> (radix 10)\<close>

definition is_js_space :: "char \<Rightarrow> bool" where
  "is_js_space c \<longleftrightarrow> of_char c = (32::nat) \<or> ((9::nat) \<le> of_char c \<and> of_char c \<le> (13::nat))"

fun digits_val :: "nat \<Rightarrow> string \<Rightarrow> nat" where
  "digits_val acc [] = acc"
| "digits_val acc (c # cs) = digits_val (10 * acc + digit_val c) cs"

text \<open>
  \<open>parseInt(s)\<close>: leading white space is skipped, one sign is read, then the longest
  prefix of decimal digits; with no digit the result is \<open>NaN\<close>, here \<open>None\<close>.
  A string that is absent (\<open>parseInt(undefined)\<close>) is \<open>NaN\<close> as well.
\<close>

definition parse_int :: "string \<Rightarrow> int option" where
  "parse_int s =
     (let t = dropWhile is_js_space s;
          neg = (t \<noteq> [] \<and> hd t = CHR ''-'');
          u = (if t \<noteq> [] \<and> (hd t = CHR ''-'' \<or> hd t = CHR ''+'') then tl t else t);
          ds = takeWhile is_digit u
      in if ds = [] then None
         else Some ((if neg then -1 else 1) * int (digits_val 0 ds)))"

definition parse_int_opt :: "string option \<Rightarrow> int option" where
  "parse_int_opt s = (case s of None \<Rightarrow> None | Some x \<Rightarrow> parse_int x)"

text \<open>\<open>String(n)\<close> of a JavaScript number holding an integer (\<open>-0\<close> prints as \<open>0\<close>).\<close>

definition show_int :: "int \<Rightarrow> string" where
  "show_int i = (if i < 0 then CHR ''-'' # show_nat (nat (- i)) else show_nat (nat i))"

subsection \<open>\<open>split\<close> on one character, indexing, rounding\<close>

fun split_on :: "char \<Rightarrow> string \<Rightarrow> string list" where
  "split_on c [] = [[]]"
| "split_on c (x # xs) =
     (if x = c then [] # split_on c xs
      else (let r = split_on c xs in (x # hd r) # tl r))"

text \<open>\<open>xs[i]\<close> on a JavaScript array: \<open>undefined\<close> (here \<open>None\<close>) out of range.\<close>

definition js_index :: "'a list \<Rightarrow> nat \<Rightarrow> 'a option" where
  "js_index xs i = (if i < length xs then Some (xs ! i) else None)"

text \<open>\<open>Math.round\<close>: the nearest integer, halves rounded towards \<open>+\<infinity>\<close>.\<close>

definition js_round :: "real \<Rightarrow> int" where
  "js_round x = \<lfloor>x + 1 / 2\<rfloor>"

text \<open>\<open>String.prototype.toLowerCase\<close> on ASCII letters.\<close>

definition js_lower_char :: "char \<Rightarrow> char" where
  "js_lower_char c = (if (65::nat) \<le> of_char c \<and> of_char c \<le> (90::nat) then char_of (of_char c + (32::nat)) else c)"

definition js_lower :: "string \<Rightarrow> string" where
  "js_lower s = map js_lower_char s"

subsection \<open>Lemmas on digits\<close>

lemma of_char_digit_char [simp]: "d < 10 \<Longrightarrow> of_char (digit_char d) = 48 + d"
  by (simp add: digit_char_def)

lemma is_digit_digit_char [simp]: "d < 10 \<Longrightarrow> is_digit (digit_char d)"
  by (simp add: is_digit_def)

lemma digit_val_digit_char [simp]: "d < 10 \<Longrightarrow> digit_val (digit_char d) = d"
  by (simp add: digit_val_def)

lemma not_space_digit_char [simp]: "d < 10 \<Longrightarrow> \<not> is_js_space (digit_char d)"
  by (simp add: is_js_space_def)

lemma sign_not_digit_char [simp]:
  "d < 10 \<Longrightarrow> digit_char d \<noteq> CHR ''-''" "d < 10 \<Longrightarrow> digit_char d \<noteq> CHR ''+''"
proof -
  assume "d < 10"
  then have "of_char (digit_char d) \<noteq> (of_char (CHR ''-'') :: nat)"
    and "of_char (digit_char d) \<noteq> (of_char (CHR ''+'') :: nat)" by simp_all
  then show "digit_char d \<noteq> CHR ''-''" "digit_char d \<noteq> CHR ''+''" by metis+
qed

lemma sign_not_digit_char' [simp]:
  "d < 10 \<Longrightarrow> CHR ''-'' \<noteq> digit_char d" "d < 10 \<Longrightarrow> CHR ''+'' \<noteq> digit_char d"
  using sign_not_digit_char by metis+

lemma show_nat_digits: "\<forall>c \<in> set (show_nat n). \<exists>d < 10. c = digit_char d"
proof (induction n rule: show_nat.induct)
  case (1 n)
  have "n mod 10 < 10" by simp
  with "1" show ?case by (subst show_nat.simps) (auto simp del: mod_less_divisor)
qed

lemma show_nat_all_digit [simp]: "\<forall>c \<in> set (show_nat n). is_digit c"
  using show_nat_digits by fastforce

lemma show_nat_no_nondigit: "\<not> is_digit c \<Longrightarrow> c \<notin> set (show_nat n)"
  using show_nat_all_digit by blast

lemma punct_not_digit [simp]: "\<not> is_digit (CHR '':'')" "\<not> is_digit (CHR ''.'')"
  by (simp_all add: is_digit_def)

lemma show_nat_no_punct [simp]: "CHR '':'' \<notin> set (show_nat n)" "CHR ''.'' \<notin> set (show_nat n)"
  by (simp_all add: show_nat_no_nondigit)

lemma show_nat_ne [simp]: "show_nat n \<noteq> []"
  by (subst show_nat.simps) simp

lemma digits_val_append: "digits_val acc (xs @ ys) = digits_val (digits_val acc xs) ys"
  by (induction xs arbitrary: acc) simp_all

lemma digits_val_show_nat [simp]: "digits_val 0 (show_nat n) = n"
proof (induction n rule: show_nat.induct)
  case (1 n)
  then show ?case
    by (subst show_nat.simps) (simp add: digits_val_append)
qed

lemma digits_val_zeros: "digits_val 0 (replicate k (CHR ''0'') @ s) = digits_val 0 s"
proof -
  have "digits_val 0 (replicate k (CHR ''0'')) = 0"
    by (induction k) (simp_all add: digit_val_def)
  then show ?thesis by (simp add: digits_val_append)
qed

lemma hd_show_nat: "\<exists>d < 10. hd (show_nat n) = digit_char d"
  using show_nat_digits[of n] show_nat_ne[of n] hd_in_set by blast

subsection \<open>Lemmas on \<open>parseInt\<close>\<close>

text \<open>
  \<open>parseInt\<close> reads a digit string that starts with a digit and is followed by a
  non-digit (or nothing) as its decimal value.
\<close>

lemma parse_int_digits_prefix:
  assumes "ds \<noteq> []" "\<forall>c \<in> set ds. is_digit c" "hd ds \<noteq> CHR ''-''" "hd ds \<noteq> CHR ''+''"
    "\<not> is_js_space (hd ds)" "rest = [] \<or> \<not> is_digit (hd rest)"
  shows "parse_int (ds @ rest) = Some (int (digits_val 0 ds))"
proof -
  from assms(1,5) have dw: "dropWhile is_js_space (ds @ rest) = ds @ rest"
    by (cases ds) simp_all
  from assms(2,6) have tw: "takeWhile is_digit (ds @ rest) = ds"
    by (cases rest) simp_all
  from assms(1) have "hd (ds @ rest) = hd ds" by simp
  with assms(1,3,4) dw tw show ?thesis
    by (simp add: parse_int_def Let_def)
qed

lemma zero_char_facts [simp]:
  "is_digit (CHR ''0'')" "\<not> is_js_space (CHR ''0'')" "digit_val (CHR ''0'') = 0"
  by (simp_all add: is_digit_def is_js_space_def digit_val_def)

lemma parse_int_padded_show_nat:
  assumes "rest = [] \<or> \<not> is_digit (hd rest)"
  shows "parse_int (pad_start k (CHR ''0'') (show_nat n) @ rest) = Some (int n)"
proof -
  let ?ds = "pad_start k (CHR ''0'') (show_nat n)"
  obtain d where d: "d < 10" "hd (show_nat n) = digit_char d" using hd_show_nat by blast
  have ne: "?ds \<noteq> []" by (simp add: pad_start_def)
  have dig: "\<forall>c \<in> set ?ds. is_digit c" by (auto simp: pad_start_def)
  have hd: "hd ?ds = CHR ''0'' \<or> hd ?ds = digit_char d"
    using d by (cases "k - length (show_nat n)") (simp_all add: pad_start_def)
  have "hd ?ds \<noteq> CHR ''-'' \<and> hd ?ds \<noteq> CHR ''+'' \<and> \<not> is_js_space (hd ?ds)"
    using hd d by auto
  with ne dig assms have "parse_int (?ds @ rest) = Some (int (digits_val 0 ?ds))"
    by (intro parse_int_digits_prefix) auto
  then show ?thesis by (simp add: pad_start_def digits_val_zeros)
qed

lemma takeWhile_show_nat:
  "rest = [] \<or> \<not> is_digit (hd rest) \<Longrightarrow> takeWhile is_digit (show_nat n @ rest) = show_nat n"
  by (cases rest) (auto simp: takeWhile_append2)

lemma parse_int_show_int:
  assumes "rest = [] \<or> \<not> is_digit (hd rest)"
  shows "parse_int (show_int i @ rest) = Some i"
proof (cases "i < 0")
  case True
  have "\<not> is_js_space (CHR ''-'')" by (simp add: is_js_space_def)
  with True takeWhile_show_nat[OF assms, of "nat (- i)"] show ?thesis
    by (simp add: parse_int_def show_int_def Let_def)
next
  case False
  with parse_int_padded_show_nat[OF assms, of 0 "nat i"] show ?thesis
    by (simp add: show_int_def pad_start_def)
qed

subsection \<open>Lemmas on \<open>Math.round\<close>\<close>

lemma js_round_bounds: "of_int (js_round x) - 1 / 2 \<le> x \<and> x < of_int (js_round x) + 1 / 2"
proof -
  have "of_int \<lfloor>x + 1 / 2\<rfloor> \<le> x + 1 / 2" "x + 1 / 2 < of_int \<lfloor>x + 1 / 2\<rfloor> + 1"
    by (rule of_int_floor_le) (rule real_of_int_floor_add_one_gt)
  then show ?thesis unfolding js_round_def by linarith
qed

lemma js_round_dist: "\<bar>of_int (js_round x) - x\<bar> \<le> 1 / 2"
  using js_round_bounds[of x] by (simp only: abs_le_iff) linarith

subsection \<open>Lemmas on \<open>split\<close>\<close>

lemma split_on_ne [simp]: "split_on c s \<noteq> []"
  by (induction s) (simp_all add: Let_def)

lemma split_on_no_sep: "c \<notin> set s \<Longrightarrow> split_on c s = [s]"
  by (induction s) auto

lemma split_on_append_sep:
  "c \<notin> set xs \<Longrightarrow> split_on c (xs @ c # ys) = xs # split_on c ys"
  by (induction xs) (auto simp: Let_def)

lemma length_pad_start: "length (pad_start n c s) = max n (length s)"
  by (simp add: pad_start_def)

lemma pad_start_no_punct [simp]:
  "CHR '':'' \<notin> set (pad_start n (CHR ''0'') (show_nat k))"
  "CHR ''.'' \<notin> set (pad_start n (CHR ''0'') (show_nat k))"
  by (simp_all add: pad_start_def)

lemma parse_int_pad_show_nat [simp]:
  "parse_int (pad_start k (CHR ''0'') (show_nat n)) = Some (int n)"
  using parse_int_padded_show_nat[of "[]" k n] by simp

subsection \<open>Evaluation on literals\<close>

text \<open>
  Guarded unfoldings of \<open>show_nat\<close>: the simplifier decides the guard before it
  rewrites, so a literal argument evaluates without looping.
\<close>

lemma digit_char_numerals [js_simps]:
  "digit_char 0 = CHR ''0''" "digit_char 1 = CHR ''1''" "digit_char (Suc 0) = CHR ''1''"
  "digit_char 2 = CHR ''2''" "digit_char 3 = CHR ''3''" "digit_char 4 = CHR ''4''"
  "digit_char 5 = CHR ''5''" "digit_char 6 = CHR ''6''" "digit_char 7 = CHR ''7''"
  "digit_char 8 = CHR ''8''" "digit_char 9 = CHR ''9''"
  by (simp_all add: digit_char_def char_of_def bit_0)

lemma show_nat_small [js_simps]: "n < 10 \<Longrightarrow> show_nat n = [digit_char n]"
  by (simp add: show_nat.simps)

lemma show_nat_big [js_simps]:
  "\<not> n < 10 \<Longrightarrow> show_nat n = show_nat (n div 10) @ [digit_char (n mod 10)]"
  by (simp add: show_nat.simps[of n])

lemma length_show_nat_lt100: "n < 100 \<Longrightarrow> length (show_nat n) \<le> 2"
proof (cases "n < 10")
  case False
  moreover assume "n < 100"
  ultimately have "show_nat n = [digit_char (n div 10), digit_char (n mod 10)]"
    by (simp add: show_nat_big show_nat_small)
  then show ?thesis by simp
qed (simp add: show_nat_small)

lemma length_pad2_show_nat [simp]: "n < 100 \<Longrightarrow> length (pad_start 2 (CHR ''0'') (show_nat n)) = 2"
  using length_show_nat_lt100[of n] by (simp add: length_pad_start)

lemma length_pad_start_ge: "n \<le> length (pad_start n c s)"
  by (simp add: length_pad_start)

lemma pad_show_nat_digits [simp]: "list_all is_digit (pad_start n (CHR ''0'') (show_nat k))"
proof -
  have "is_digit (CHR ''0'')" by (simp add: is_digit_def)
  with show_nat_all_digit[of k] show ?thesis by (auto simp: pad_start_def list_all_iff)
qed

declare pad_start_def [js_simps]

end
