(* ===== verification/Timer.thy ===== *)
theory Timer
  imports Prelude
begin

text \<open>
  The countdown widget, \<open>src/src/components/features/Timer.tsx\<close>. The React state
  (\<open>timeLeft\<close>, \<open>initialTime\<close>, \<open>isRunning\<close>, \<open>isFinished\<close>) is the record
  \<open>timer\<close>, with JavaScript numbers as \<open>int\<close> so that "never below zero" is a
  statement and not a property of the type. The 1 s interval callback, the start/pause
  and reset handlers and \<open>adjustTime\<close> are one definition each; \<open>tm_step\<close> composes
  them with the rendering conditions of the buttons. The lemmas give the invariant of all
  reachable states, the exact countdown (it finishes once, after \<open>timeLeft / 1000\<close>
  ticks), the bounds of the progress ring and the behaviour of the duration buttons.
  \<open>tm_render\<close> is the screen the component returns, and \<open>tm_interval\<close> the interval
  effect run as a loop without user input, which returns on every state of the invariant.
\<close>

subsection \<open>State and operations\<close>

record timer =
  tm_timeLeft :: int
  tm_initialTime :: int
  tm_isRunning :: bool
  tm_isFinished :: bool

definition tm_init :: timer where
  "tm_init = \<lparr>tm_timeLeft = 300000, tm_initialTime = 300000,
              tm_isRunning = False, tm_isFinished = False\<rparr>"

text \<open>
  The effect installs the interval only while \<open>isRunning && timeLeft > 0\<close>; the
  callback clamps at zero and raises \<open>isFinished\<close> when at most one second is left.
\<close>

definition tm_tick :: "timer \<Rightarrow> timer" where
  "tm_tick s =
     (if tm_isRunning s \<and> 0 < tm_timeLeft s then
        (if tm_timeLeft s \<le> 1000
         then s\<lparr>tm_isRunning := False, tm_isFinished := True, tm_timeLeft := 0\<rparr>
         else s\<lparr>tm_timeLeft := tm_timeLeft s - 1000\<rparr>)
      else s)"

definition tm_handleStartPause :: "timer \<Rightarrow> timer" where
  "tm_handleStartPause s =
     (if tm_isFinished s then s\<lparr>tm_isFinished := False, tm_timeLeft := tm_initialTime s\<rparr>
      else s\<lparr>tm_isRunning := \<not> tm_isRunning s\<rparr>)"

definition tm_handleReset :: "timer \<Rightarrow> timer" where
  "tm_handleReset s =
     s\<lparr>tm_isRunning := False, tm_isFinished := False, tm_timeLeft := tm_initialTime s\<rparr>"

definition tm_adjustTime :: "int \<Rightarrow> timer \<Rightarrow> timer" where
  "tm_adjustTime delta s =
     (if \<not> tm_isRunning s then
        (let newTime = max 60000 (tm_initialTime s + delta)
         in s\<lparr>tm_initialTime := newTime, tm_timeLeft := newTime\<rparr>)
      else s)"

definition tm_getProgress :: "timer \<Rightarrow> real" where
  "tm_getProgress s =
     ((of_int (tm_initialTime s) - of_int (tm_timeLeft s)) / of_int (tm_initialTime s)) * 100"

text \<open>
  The events of the widget: the interval callback and the four buttons. The two duration
  buttons are rendered only when the timer is neither running nor finished.
\<close>

datatype tm_event = TmTick | TmStartPause | TmReset | TmMinus | TmPlus

fun tm_step :: "timer \<Rightarrow> tm_event \<Rightarrow> timer" where
  "tm_step s TmTick = tm_tick s"
| "tm_step s TmStartPause = tm_handleStartPause s"
| "tm_step s TmReset = tm_handleReset s"
| "tm_step s TmMinus =
     (if \<not> tm_isRunning s \<and> \<not> tm_isFinished s then tm_adjustTime (-60000) s else s)"
| "tm_step s TmPlus =
     (if \<not> tm_isRunning s \<and> \<not> tm_isFinished s then tm_adjustTime 60000 s else s)"

fun tm_run :: "timer \<Rightarrow> tm_event list \<Rightarrow> timer" where
  "tm_run s [] = s"
| "tm_run s (e # es) = tm_run (tm_step s e) es"

subsection \<open>The display\<close>

text \<open>
  \<open>formatTime\<close> on the non-negative values the invariant below guarantees for
  \<open>timeLeft\<close>; there \<open>Math.floor\<close> and JavaScript's \<open>%\<close> agree with \<open>div\<close>
  and \<open>mod\<close>.
\<close>

definition tm_formatTime :: "ms \<Rightarrow> string" where
  "tm_formatTime ms =
     (let minutes = ms div 60000;
          seconds = (ms mod 60000) div 1000
      in pad_start 2 (CHR ''0'') (show_nat minutes) @ '':'' @
         pad_start 2 (CHR ''0'') (show_nat seconds))"

text \<open>Reading an \<open>mm:ss\<close> display back into milliseconds (the observer, not the code).\<close>

definition tm_read_display :: "string \<Rightarrow> int option" where
  "tm_read_display str =
     (case split_on CHR '':'' str of
        [mm, ss] \<Rightarrow>
          (case (parse_int mm, parse_int ss) of
             (Some m, Some sec) \<Rightarrow> Some (60000 * m + 1000 * sec)
           | _ \<Rightarrow> None)
      | _ \<Rightarrow> None)"

subsection \<open>The screen\<close>

text \<open>
  What the component renders from its state: the \<open>mm:ss\<close> display of \<open>timeLeft\<close>
  (pulsing red once finished), the progress ring, whose dash offset is
  \<open>2 * Math.PI * 45 * (1 - getProgress() / 100)\<close>, the duration in minutes between the
  - and + buttons (rendered only when neither running nor finished), the icon of the main
  button, and the "Time's Up!" banner. \<open>timeLeft\<close> is read as a \<open>nat\<close>, which is
  exact on the non-negative values the invariant below guarantees.
\<close>

datatype tm_icon = TmIconRestart | TmIconPause | TmIconPlay

record tm_screen =
  ts_display :: string
  ts_alert :: bool
  ts_dashoffset :: real
  ts_minutes :: "int option"
  ts_mainIcon :: tm_icon
  ts_timesUp :: bool

definition tm_circumference :: real where
  "tm_circumference = 2 * pi * 45"

definition tm_render :: "timer \<Rightarrow> tm_screen" where
  "tm_render s =
     \<lparr>ts_display = tm_formatTime (nat (tm_timeLeft s)),
      ts_alert = tm_isFinished s,
      ts_dashoffset = tm_circumference * (1 - tm_getProgress s / 100),
      ts_minutes = (if \<not> tm_isRunning s \<and> \<not> tm_isFinished s
                    then Some (tm_initialTime s div 60000) else None),
      ts_mainIcon = (if tm_isFinished s then TmIconRestart
                     else if tm_isRunning s then TmIconPause else TmIconPlay),
      ts_timesUp = tm_isFinished s\<rparr>"

subsection \<open>The interval as a loop\<close>

text \<open>
  The effect keeps a 1 s interval installed while \<open>isRunning && timeLeft > 0\<close> and is
  re-run whenever either value changes, so without user input the callbacks form a loop
  that ticks until the condition fails and the interval is cleared. \<open>tm_interval s n\<close>
  runs that loop from \<open>s\<close>, counting the callbacks from \<open>n\<close>; \<open>None\<close> would be an
  interval that is never cleared.
\<close>

partial_function (option) tm_interval :: "timer \<Rightarrow> nat \<Rightarrow> (timer \<times> nat) option" where
  "tm_interval s n =
     (if tm_isRunning s \<and> 0 < tm_timeLeft s then tm_interval (tm_tick s) (Suc n) else Some (s, n))"

subsection \<open>Invariant\<close>

definition tm_inv :: "timer \<Rightarrow> bool" where
  "tm_inv s \<longleftrightarrow>
     60000 \<le> tm_initialTime s \<and> 60000 dvd tm_initialTime s \<and>
     0 \<le> tm_timeLeft s \<and> tm_timeLeft s \<le> tm_initialTime s \<and> 1000 dvd tm_timeLeft s \<and>
     (tm_isFinished s \<longrightarrow> tm_timeLeft s = 0 \<and> \<not> tm_isRunning s) \<and>
     (\<not> tm_isFinished s \<longrightarrow> 0 < tm_timeLeft s)"

lemmas tm_ops = tm_tick_def tm_handleStartPause_def tm_handleReset_def tm_adjustTime_def

lemma tm_init_inv: "tm_inv tm_init"
  by (simp add: tm_inv_def tm_init_def)

lemma dvd_1000_le:
  assumes "1000 dvd (t::int)" "0 < t" "t \<le> 1000"
  shows "t = 1000"
proof -
  from assms(1) obtain k where t: "t = 1000 * k" by (elim dvdE)
  with assms(2) have "0 < k" by simp
  moreover from t assms(3) have "k \<le> 1" by simp
  ultimately show ?thesis using t by simp
qed

lemma tm_tick_inv: "tm_inv s \<Longrightarrow> tm_inv (tm_tick s)"
  by (auto simp: tm_inv_def tm_tick_def dest: dvd_1000_le)

lemma tm_adjust_inv:
  assumes "tm_inv s" "\<not> tm_isRunning s" "\<not> tm_isFinished s" "60000 dvd delta"
  shows "tm_inv (tm_adjustTime delta s)"
proof -
  have h60: "60000 dvd max 60000 (tm_initialTime s + delta)"
    using assms(1,4) by (simp add: tm_inv_def max_def)
  then have "1000 dvd max 60000 (tm_initialTime s + delta)"
    by (rule dvd_trans[rotated]) simp
  with assms h60 show ?thesis
    by (auto simp: tm_inv_def tm_adjustTime_def Let_def)
qed

lemma tm_step_inv: "tm_inv s \<Longrightarrow> tm_inv (tm_step s e)"
proof (cases e)
  case TmTick
  then show "tm_inv s \<Longrightarrow> tm_inv (tm_step s e)" by (simp add: tm_tick_inv)
next
  case TmStartPause
  then show "tm_inv s \<Longrightarrow> tm_inv (tm_step s e)"
    by (auto simp: tm_inv_def tm_handleStartPause_def dvd_trans[of 1000 60000])
next
  case TmReset
  then show "tm_inv s \<Longrightarrow> tm_inv (tm_step s e)"
    by (auto simp: tm_inv_def tm_handleReset_def dvd_trans[of 1000 60000])
next
  case TmMinus
  then show "tm_inv s \<Longrightarrow> tm_inv (tm_step s e)" by (simp add: tm_adjust_inv)
next
  case TmPlus
  then show "tm_inv s \<Longrightarrow> tm_inv (tm_step s e)" by (simp add: tm_adjust_inv)
qed

lemma tm_run_inv: "tm_inv s \<Longrightarrow> tm_inv (tm_run s es)"
  by (induction es arbitrary: s) (simp_all add: tm_step_inv)

lemma tm_run_append [simp]: "tm_run s (xs @ ys) = tm_run (tm_run s xs) ys"
  by (induction xs arbitrary: s) simp_all

lemma tm_run_ticks_idle: "\<not> tm_isRunning s \<Longrightarrow> tm_run s (replicate n TmTick) = s"
  by (induction n) (simp_all add: tm_tick_def)

lemma tm_countdown:
  assumes "tm_inv s" "tm_isRunning s"
  shows "tm_run s (replicate j TmTick) =
           (if int j < tm_timeLeft s div 1000 then s\<lparr>tm_timeLeft := tm_timeLeft s - 1000 * int j\<rparr>
            else s\<lparr>tm_isRunning := False, tm_isFinished := True, tm_timeLeft := 0\<rparr>)"
  using assms
proof (induction j arbitrary: s)
  case 0
  then show ?case by (auto simp: tm_inv_def)
next
  case (Suc j)
  then have pos: "0 < tm_timeLeft s" and dv: "1000 dvd tm_timeLeft s"
    by (auto simp: tm_inv_def)
  show ?case
  proof (cases "tm_timeLeft s \<le> 1000")
    case True
    with pos dv have "tm_timeLeft s = 1000" by (intro dvd_1000_le)
    with Suc.prems show ?thesis by (simp add: tm_tick_def tm_run_ticks_idle)
  next
    case False
    let ?t = "s\<lparr>tm_timeLeft := tm_timeLeft s - 1000\<rparr>"
    have tick: "tm_tick s = ?t" using False pos Suc.prems(2) by (simp add: tm_tick_def)
    have "tm_inv ?t" using Suc.prems(1) tick tm_tick_inv by metis
    then have IH: "tm_run ?t (replicate j TmTick) =
        (if int j < tm_timeLeft ?t div 1000 then ?t\<lparr>tm_timeLeft := tm_timeLeft ?t - 1000 * int j\<rparr>
         else ?t\<lparr>tm_isRunning := False, tm_isFinished := True, tm_timeLeft := 0\<rparr>)"
      using Suc.IH Suc.prems(2) by simp
    have "(tm_timeLeft s - 1000) div 1000 = tm_timeLeft s div 1000 - 1" by simp
    with IH tick show ?thesis by (simp add: algebra_simps)
  qed
qed

lemma tm_inv_progress:
  assumes "tm_inv s"
  shows "0 \<le> tm_getProgress s \<and> tm_getProgress s \<le> 100"
proof -
  from assms have i: "0 < (of_int (tm_initialTime s) :: real)"
    and l0: "0 \<le> (of_int (tm_timeLeft s) :: real)"
    and li: "(of_int (tm_timeLeft s) :: real) \<le> of_int (tm_initialTime s)"
    by (auto simp: tm_inv_def)
  have "0 \<le> (of_int (tm_initialTime s) - of_int (tm_timeLeft s)) / (of_int (tm_initialTime s) :: real)"
    using i li by simp
  moreover have "(of_int (tm_initialTime s) - of_int (tm_timeLeft s)) / (of_int (tm_initialTime s) :: real) \<le> 1"
    using i l0 by (simp add: divide_le_eq_1)
  moreover have "\<And>q::real. 0 \<le> q \<Longrightarrow> q \<le> 1 \<Longrightarrow> 0 \<le> q * 100 \<and> q * 100 \<le> 100"
    by simp
  ultimately show ?thesis unfolding tm_getProgress_def by blast
qed

lemma tm_fields_recompose:
  "60000 * (ms div 60000) + 1000 * (ms mod 60000 div 1000) = ms - ms mod (1000::nat)"
proof -
  have chain: "\<And>x a m b d. x = a + m \<Longrightarrow> m = b + d \<Longrightarrow> a + b = x - (d::nat)" by arith
  have "ms = 60000 * (ms div 60000) + ms mod 60000" by simp
  moreover have "ms mod 60000 = 1000 * (ms mod 60000 div 1000) + ms mod 1000"
    using div_mult_mod_eq[of "ms mod 60000" 1000] by (simp add: mod_mod_cancel)
  ultimately show ?thesis by (rule chain)
qed

lemma tm_formatTime_reads: "tm_read_display (tm_formatTime ms) = Some (int (ms - ms mod 1000))"
proof -
  have "int (ms - ms mod 1000) = 60000 * int (ms div 60000) + 1000 * int (ms mod 60000 div 1000)"
    using tm_fields_recompose[of ms] by linarith
  then show ?thesis
    by (simp add: tm_formatTime_def tm_read_display_def Let_def split_on_append_sep
        split_on_no_sep del: of_nat_diff)
qed

lemma tm_inv_left_ge:
  assumes "tm_inv s" "\<not> tm_isFinished s"
  shows "1000 \<le> tm_timeLeft s"
  using assms zdvd_imp_le[of 1000 "tm_timeLeft s"] by (simp add: tm_inv_def)

lemma tm_inv_screen:
  assumes "tm_inv s"
  shows "0 \<le> ts_dashoffset (tm_render s) \<and> ts_dashoffset (tm_render s) \<le> tm_circumference \<and>
         (ts_timesUp (tm_render s) \<longleftrightarrow> ts_display (tm_render s) = ''00:00'')"
proof (intro conjI)
  have p: "0 \<le> tm_getProgress s" "tm_getProgress s \<le> 100" using tm_inv_progress[OF assms] by auto
  have c: "0 < tm_circumference" by (simp add: tm_circumference_def)
  from p c show "0 \<le> ts_dashoffset (tm_render s)" by (simp add: tm_render_def)
  from p c show "ts_dashoffset (tm_render s) \<le> tm_circumference"
    by (simp add: tm_render_def mult_le_cancel_left1)
  show "ts_timesUp (tm_render s) \<longleftrightarrow> ts_display (tm_render s) = ''00:00''"
  proof
    assume "ts_timesUp (tm_render s)"
    with assms have "tm_timeLeft s = 0" by (simp add: tm_render_def tm_inv_def)
    then show "ts_display (tm_render s) = ''00:00''"
      by (simp add: tm_render_def tm_formatTime_def js_simps)
  next
    assume d: "ts_display (tm_render s) = ''00:00''"
    have "tm_read_display ''00:00'' = Some 0"
      by (simp add: tm_read_display_def parse_int_def js_simps)
    with d tm_formatTime_reads[of "nat (tm_timeLeft s)"]
    have "nat (tm_timeLeft s) - nat (tm_timeLeft s) mod 1000 = 0"
      by (simp add: tm_render_def del: of_nat_diff)
    then have "nat (tm_timeLeft s) \<le> nat (tm_timeLeft s) mod 1000" by simp
    then have "nat (tm_timeLeft s) < 1000"
      using mod_less_divisor[of 1000 "nat (tm_timeLeft s)"] by (rule order.strict_trans1) simp
    with assms tm_inv_left_ge show "ts_timesUp (tm_render s)"
      by (fastforce simp: tm_render_def)
  qed
qed

lemma tm_interval_stop: "\<not> (tm_isRunning s \<and> 0 < tm_timeLeft s) \<Longrightarrow> tm_interval s n = Some (s, n)"
  unfolding tm_interval.simps[of s n] by auto

lemma tm_interval_count:
  "tm_inv s \<Longrightarrow> tm_isRunning s \<Longrightarrow> nat (tm_timeLeft s div 1000) = k \<Longrightarrow>
     tm_interval s n = Some (s\<lparr>tm_isRunning := False, tm_isFinished := True, tm_timeLeft := 0\<rparr>, n + k)"
proof (induction k arbitrary: s n)
  case 0
  then have "1000 \<le> tm_timeLeft s" by (intro tm_inv_left_ge) (auto simp: tm_inv_def)
  with 0 show ?case by simp
next
  case (Suc k)
  then have pos: "0 < tm_timeLeft s" and dv: "1000 dvd tm_timeLeft s" by (auto simp: tm_inv_def)
  have go: "tm_interval s n = tm_interval (tm_tick s) (Suc n)"
    using pos Suc.prems(2) by (subst tm_interval.simps) simp
  show ?case
  proof (cases "tm_timeLeft s \<le> 1000")
    case True
    with pos dv have "tm_timeLeft s = 1000" by (intro dvd_1000_le)
    with Suc.prems go show ?thesis by (simp add: tm_tick_def tm_interval_stop)
  next
    case False
    let ?t = "s\<lparr>tm_timeLeft := tm_timeLeft s - 1000\<rparr>"
    have tick: "tm_tick s = ?t" using False pos Suc.prems(2) by (simp add: tm_tick_def)
    have "tm_inv ?t" using Suc.prems(1) tick tm_tick_inv by metis
    moreover have "nat (tm_timeLeft ?t div 1000) = k" using Suc.prems(3) by simp
    ultimately have "tm_interval ?t (Suc n) =
        Some (?t\<lparr>tm_isRunning := False, tm_isFinished := True, tm_timeLeft := 0\<rparr>, Suc n + k)"
      using Suc.IH Suc.prems(2) by simp
    with go tick show ?thesis by simp
  qed
qed

subsection \<open>Properties\<close>

text \<open>
  C1. Every state reachable from the initial timer by ticks and button presses keeps the
  invariant: the configured duration is a whole number of minutes, at least one; the
  remaining time is a whole number of seconds between 0 and the configured duration;
  a finished timer shows 0 and is not running, an unfinished one has time left.
\<close>

theorem tm_reachable_inv: "tm_inv (tm_run tm_init es)"
  using tm_init_inv by (rule tm_run_inv)

theorem tm_reachable_inv_witness:
  "tm_inv (tm_run tm_init [TmPlus, TmStartPause, TmTick, TmStartPause, TmMinus, TmReset])"
  by (rule tm_reachable_inv)

text \<open>
  C2. A running countdown advances by exactly one second per tick and finishes exactly
  once: after \<open>j\<close> ticks it shows \<open>timeLeft - 1000 j\<close> while
  \<open>j < timeLeft / 1000\<close>, and from then on it is finished, stopped and at zero, however
  many more ticks arrive.
\<close>

theorem tm_countdown_exact:
  assumes "tm_inv s" "tm_isRunning s"
  shows "tm_run s (replicate j TmTick) =
           (if int j < tm_timeLeft s div 1000 then s\<lparr>tm_timeLeft := tm_timeLeft s - 1000 * int j\<rparr>
            else s\<lparr>tm_isRunning := False, tm_isFinished := True, tm_timeLeft := 0\<rparr>)"
  using assms by (rule tm_countdown)

theorem tm_countdown_exact_witness:
  "tm_run (tm_init\<lparr>tm_isRunning := True, tm_timeLeft := 3000\<rparr>) (replicate 5 TmTick) =
     tm_init\<lparr>tm_isRunning := False, tm_isFinished := True, tm_timeLeft := 0\<rparr>"
proof -
  have "tm_inv (tm_init\<lparr>tm_isRunning := True, tm_timeLeft := 3000\<rparr>)"
    by (simp add: tm_inv_def tm_init_def)
  from tm_countdown_exact[OF this, of 5] show ?thesis by (simp add: tm_init_def)
qed

text \<open>
  C3. While the timer runs, no event but Reset raises the remaining time, and no event
  takes it below zero.
\<close>

theorem tm_running_monotone:
  assumes "tm_inv s" "tm_isRunning s" "e \<noteq> TmReset"
  shows "0 \<le> tm_timeLeft (tm_step s e) \<and> tm_timeLeft (tm_step s e) \<le> tm_timeLeft s"
proof -
  have "tm_inv (tm_step s e)" using assms(1) by (rule tm_step_inv)
  then have "0 \<le> tm_timeLeft (tm_step s e)" by (simp add: tm_inv_def)
  moreover have "tm_timeLeft (tm_step s e) \<le> tm_timeLeft s"
    using assms by (cases e) (auto simp: tm_inv_def tm_ops)
  ultimately show ?thesis ..
qed

theorem tm_running_monotone_witness:
  "0 \<le> tm_timeLeft (tm_step (tm_run tm_init [TmStartPause]) TmTick) \<and>
   tm_timeLeft (tm_step (tm_run tm_init [TmStartPause]) TmTick) \<le> tm_timeLeft (tm_run tm_init [TmStartPause])"
proof -
  have "tm_isRunning (tm_run tm_init [TmStartPause])"
    by (simp add: tm_init_def tm_handleStartPause_def)
  with tm_running_monotone[OF tm_reachable_inv this, of TmTick] show ?thesis by simp
qed

text \<open>
  C4. In every reachable state the rendered screen is consistent: the progress fraction
  \<open>(initialTime - timeLeft) / initialTime * 100\<close> lies between 0 and 100 (so it never
  divides by zero), the ring's dash offset lies between 0 and the full circumference, and
  the "Time's Up!" banner shows exactly when the display reads \<open>00:00\<close>.
\<close>

theorem tm_screen_bounds:
  "0 \<le> tm_getProgress (tm_run tm_init es) \<and> tm_getProgress (tm_run tm_init es) \<le> 100 \<and>
   0 \<le> ts_dashoffset (tm_render (tm_run tm_init es)) \<and>
   ts_dashoffset (tm_render (tm_run tm_init es)) \<le> tm_circumference \<and>
   (ts_timesUp (tm_render (tm_run tm_init es)) \<longleftrightarrow> ts_display (tm_render (tm_run tm_init es)) = ''00:00'')"
proof -
  have "tm_inv (tm_run tm_init es)" using tm_init_inv by (rule tm_run_inv)
  from tm_inv_progress[OF this] tm_inv_screen[OF this] show ?thesis by blast
qed

text \<open>
  C5. The + button on a paused, unfinished timer adds a minute to the configured duration,
  and sets the remaining time to that new duration: the remaining time grows by exactly a
  minute only when the countdown had not started. On a timer paused mid-countdown the
  remaining time jumps back to the full new duration.
\<close>

theorem tm_plus_resets_remaining:
  assumes "tm_inv s" "\<not> tm_isRunning s" "\<not> tm_isFinished s"
  shows "tm_initialTime (tm_step s TmPlus) = tm_initialTime s + 60000 \<and>
         tm_timeLeft (tm_step s TmPlus) = tm_initialTime s + 60000 \<and>
         (tm_timeLeft (tm_step s TmPlus) = tm_timeLeft s + 60000 \<longleftrightarrow>
            tm_timeLeft s = tm_initialTime s)"
  using assms by (auto simp: tm_inv_def tm_adjustTime_def Let_def)

theorem tm_plus_resets_remaining_witness:
  "tm_timeLeft (tm_step (tm_run tm_init [TmStartPause, TmTick, TmStartPause]) TmPlus) = 360000 \<and>
   tm_timeLeft (tm_run tm_init [TmStartPause, TmTick, TmStartPause]) + 60000 = 359000"
proof -
  let ?s = "tm_run tm_init [TmStartPause, TmTick, TmStartPause]"
  have s: "?s = tm_init\<lparr>tm_timeLeft := 299000\<rparr>"
    by (simp add: tm_init_def tm_ops)
  have "\<not> tm_isRunning ?s" "\<not> tm_isFinished ?s" unfolding s by (simp_all add: tm_init_def)
  from tm_plus_resets_remaining[OF tm_reachable_inv this] show ?thesis
    unfolding s by (simp add: tm_init_def)
qed

text \<open>
  C6. Start/Pause on a finished timer does not start it: it clears the finished flag and
  restores the configured duration; a second press starts the countdown from there.
\<close>

theorem tm_restart_after_finish:
  assumes "tm_inv s" "tm_isFinished s"
  shows "tm_isRunning (tm_step s TmStartPause) = False \<and>
         tm_run s [TmStartPause, TmStartPause] =
           s\<lparr>tm_isFinished := False, tm_timeLeft := tm_initialTime s, tm_isRunning := True\<rparr>"
  using assms by (simp add: tm_inv_def tm_handleStartPause_def)

theorem tm_restart_after_finish_witness:
  "tm_run (tm_init\<lparr>tm_isFinished := True, tm_timeLeft := 0\<rparr>) [TmStartPause, TmStartPause] =
     tm_init\<lparr>tm_isRunning := True\<rparr>"
proof -
  have "tm_inv (tm_init\<lparr>tm_isFinished := True, tm_timeLeft := 0\<rparr>)"
    by (simp add: tm_inv_def tm_init_def)
  from tm_restart_after_finish[OF this] show ?thesis by (simp add: tm_init_def)
qed

text \<open>
  C7. The \<open>mm:ss\<close> display reads back as the remaining time rounded down to the second.
\<close>

theorem tm_display_roundtrip: "tm_read_display (tm_formatTime ms) = Some (int (ms - ms mod 1000))"
  by (rule tm_formatTime_reads)

text \<open>
  C36. The interval loop terminates: from every state of the invariant, the callbacks
  alone clear the interval, after exactly \<open>timeLeft / 1000\<close> ticks of a running timer,
  leaving it finished, stopped and at zero; a paused or finished timer installs none.
\<close>

theorem tm_interval_terminates:
  assumes "tm_inv s"
  shows "tm_interval s 0 =
           Some (if tm_isRunning s
                 then (s\<lparr>tm_isRunning := False, tm_isFinished := True, tm_timeLeft := 0\<rparr>,
                       nat (tm_timeLeft s div 1000))
                 else (s, 0))"
proof (cases "tm_isRunning s")
  case True
  from tm_interval_count[OF assms True refl, of 0] True show ?thesis by simp
next
  case False
  then show ?thesis by (simp add: tm_interval_stop)
qed

theorem tm_interval_terminates_witness:
  "tm_interval (tm_init\<lparr>tm_isRunning := True\<rparr>) 0 =
     Some (tm_init\<lparr>tm_isFinished := True, tm_timeLeft := 0\<rparr>, 300)"
proof -
  have "tm_inv (tm_init\<lparr>tm_isRunning := True\<rparr>)" by (simp add: tm_inv_def tm_init_def)
  from tm_interval_terminates[OF this] show ?thesis by (simp add: tm_init_def)
qed

end
