(* ===== verification/Stopwatch.thy ===== *)
theory Stopwatch
  imports Prelude "HOL-Library.Sublist"
begin

text \<open>
  The stopwatch widget, \<open>src/src/components/features/Stopwatch.tsx\<close>. Its React state
  (\<open>time\<close>, \<open>isRunning\<close>, \<open>laps\<close>) is the record \<open>stopwatch\<close>; the 10 ms interval
  callback and the three button handlers are one function each, composed into a step
  function over the widget's events. The lemmas show the invariant that every reachable
  state keeps (a multiple of 10 ms, laps most-recent-first and never ahead of the clock),
  the monotonicity of the clock, the persistence of recorded laps and the read-back of the
  \<open>mm:ss.cc\<close> display, and that every screen \<open>sw_render\<close> returns is well formed.
\<close>

subsection \<open>State and operations\<close>

record stopwatch =
  sw_time :: ms
  sw_isRunning :: bool
  sw_laps :: "ms list"

definition sw_init :: stopwatch where
  "sw_init = \<lparr>sw_time = 0, sw_isRunning = False, sw_laps = []\<rparr>"

text \<open>
  The interval installed by the effect while \<open>isRunning\<close> holds; when the flag is false the
  interval is cleared, so a tick of a stopped stopwatch does nothing.
\<close>

definition sw_tick :: "stopwatch \<Rightarrow> stopwatch" where
  "sw_tick s = (if sw_isRunning s then s\<lparr>sw_time := sw_time s + 10\<rparr> else s)"

definition sw_handleStartPause :: "stopwatch \<Rightarrow> stopwatch" where
  "sw_handleStartPause s = s\<lparr>sw_isRunning := \<not> sw_isRunning s\<rparr>"

definition sw_handleReset :: "stopwatch \<Rightarrow> stopwatch" where
  "sw_handleReset s = s\<lparr>sw_isRunning := False, sw_time := 0, sw_laps := []\<rparr>"

definition sw_handleLap :: "stopwatch \<Rightarrow> stopwatch" where
  "sw_handleLap s = (if sw_isRunning s then s\<lparr>sw_laps := sw_time s # sw_laps s\<rparr> else s)"

datatype sw_event = SwTick | SwStartPause | SwReset | SwLap

text \<open>The LAP button is rendered only while running; its handler checks the flag again.\<close>

fun sw_step :: "stopwatch \<Rightarrow> sw_event \<Rightarrow> stopwatch" where
  "sw_step s SwTick = sw_tick s"
| "sw_step s SwStartPause = sw_handleStartPause s"
| "sw_step s SwReset = sw_handleReset s"
| "sw_step s SwLap = sw_handleLap s"

fun sw_run :: "stopwatch \<Rightarrow> sw_event list \<Rightarrow> stopwatch" where
  "sw_run s [] = s"
| "sw_run s (e # es) = sw_run (sw_step s e) es"

subsection \<open>The display\<close>

definition sw_formatTime :: "ms \<Rightarrow> string" where
  "sw_formatTime ms =
     (let minutes = ms div 60000;
          seconds = (ms mod 60000) div 1000;
          centiseconds = (ms mod 1000) div 10
      in pad_start 2 (CHR ''0'') (show_nat minutes) @ '':'' @
         pad_start 2 (CHR ''0'') (show_nat seconds) @ ''.'' @
         pad_start 2 (CHR ''0'') (show_nat centiseconds))"

text \<open>The lap list as rendered: row \<open>index\<close> is labelled \<open>Lap (laps.length - index)\<close>.\<close>

definition sw_lap_rows :: "ms list \<Rightarrow> (nat \<times> string) list" where
  "sw_lap_rows laps = map (\<lambda>(index, lapTime). (length laps - index, sw_formatTime lapTime))
                         (enumerate 0 laps)"

subsection \<open>The screen\<close>

text \<open>
  What the component renders: the \<open>mm:ss.cc\<close> display of \<open>time\<close>, the icon of the
  start/pause button, the LAP button (only while running), and the lap panel, rendered
  only when there is a lap.
\<close>

datatype sw_icon = SwIconPause | SwIconPlay

record sw_screen =
  ss_display :: string
  ss_mainIcon :: sw_icon
  ss_lapButton :: bool
  ss_lapPanel :: "(nat \<times> string) list option"

definition sw_render :: "stopwatch \<Rightarrow> sw_screen" where
  "sw_render s =
     \<lparr>ss_display = sw_formatTime (sw_time s),
      ss_mainIcon = (if sw_isRunning s then SwIconPause else SwIconPlay),
      ss_lapButton = sw_isRunning s,
      ss_lapPanel = (if sw_laps s \<noteq> [] then Some (sw_lap_rows (sw_laps s)) else None)\<rparr>"

text \<open>
  The shape of a display, \<open>mm:ss.cc\<close>: a minutes field of at least two digits, and
  seconds and centiseconds of exactly two (the observer's reading, not code).
\<close>

definition sw_display_shape :: "string \<Rightarrow> bool" where
  "sw_display_shape str \<longleftrightarrow>
     (case split_on CHR '':'' str of
        [mm, rest] \<Rightarrow>
          2 \<le> length mm \<and> list_all is_digit mm \<and>
          (case split_on CHR ''.'' rest of
             [ss, cc] \<Rightarrow> length ss = 2 \<and> list_all is_digit ss \<and> length cc = 2 \<and> list_all is_digit cc
           | _ \<Rightarrow> False)
      | _ \<Rightarrow> False)"

text \<open>
  Reading a display \<open>mm:ss.cc\<close> back into milliseconds; not code of the widget, the
  observer's reading of its output.
\<close>

definition sw_read_display :: "string \<Rightarrow> int option" where
  "sw_read_display str =
     (case split_on CHR '':'' str of
        [mm, rest] \<Rightarrow>
          (case split_on CHR ''.'' rest of
             [ss, cc] \<Rightarrow>
               (case (parse_int mm, parse_int ss, parse_int cc) of
                  (Some m, Some s, Some c) \<Rightarrow> Some (60000 * m + 1000 * s + 10 * c)
                | _ \<Rightarrow> None)
           | _ \<Rightarrow> None)
      | _ \<Rightarrow> None)"

subsection \<open>Invariant\<close>

definition sw_inv :: "stopwatch \<Rightarrow> bool" where
  "sw_inv s \<longleftrightarrow>
     10 dvd sw_time s \<and>
     sorted_wrt (\<ge>) (sw_laps s) \<and>
     (\<forall>l \<in> set (sw_laps s). l \<le> sw_time s \<and> 10 dvd l)"

lemmas sw_ops = sw_tick_def sw_handleStartPause_def sw_handleReset_def sw_handleLap_def

lemma sw_step_inv: "sw_inv s \<Longrightarrow> sw_inv (sw_step s e)"
  by (cases e) (auto simp: sw_inv_def sw_ops)

lemma sw_run_inv: "sw_inv s \<Longrightarrow> sw_inv (sw_run s es)"
  by (induction es arbitrary: s) (simp_all add: sw_step_inv)

lemma sw_init_inv: "sw_inv sw_init"
  by (simp add: sw_inv_def sw_init_def)

lemma sw_run_append [simp]: "sw_run s (xs @ ys) = sw_run (sw_run s xs) ys"
  by (induction xs arbitrary: s) simp_all

lemma sw_step_time_mono: "e \<noteq> SwReset \<Longrightarrow> sw_time s \<le> sw_time (sw_step s e)"
  by (cases e) (simp_all add: sw_ops)

lemma sw_step_laps_suffix: "e \<noteq> SwReset \<Longrightarrow> suffix (sw_laps s) (sw_laps (sw_step s e))"
  by (cases e) (auto simp: sw_ops suffix_def)

lemma sw_run_ticks:
  "sw_run s (replicate n SwTick) =
     (if sw_isRunning s then s\<lparr>sw_time := sw_time s + 10 * n\<rparr> else s)"
  by (induction n arbitrary: s) (auto simp: sw_tick_def)

lemma sw_fields_recompose:
  "60000 * (ms div 60000) + 1000 * (ms mod 60000 div 1000) + 10 * (ms mod 1000 div 10)
     = ms - ms mod (10::nat)"
proof -
  have chain: "\<And>x a m b m' c d. x = a + m \<Longrightarrow> m = b + m' \<Longrightarrow> m' = c + d \<Longrightarrow>
      a + b + c = x - (d::nat)" by arith
  have "ms = 60000 * (ms div 60000) + ms mod 60000" by simp
  moreover have "ms mod 60000 = 1000 * (ms mod 60000 div 1000) + ms mod 1000"
    using div_mult_mod_eq[of "ms mod 60000" 1000] by (simp add: mod_mod_cancel)
  moreover have "ms mod 1000 = 10 * (ms mod 1000 div 10) + ms mod 10"
    using div_mult_mod_eq[of "ms mod 1000" 10] by (simp add: mod_mod_cancel)
  ultimately show ?thesis by (rule chain)
qed

lemma sw_read_display_parts:
  "sw_read_display (pad_start 2 (CHR ''0'') (show_nat a) @ CHR '':'' #
      pad_start 2 (CHR ''0'') (show_nat b) @ CHR ''.'' # pad_start 2 (CHR ''0'') (show_nat c))
   = Some (60000 * int a + 1000 * int b + 10 * int c)"
  by (simp add: sw_read_display_def split_on_append_sep split_on_no_sep)

lemma sw_lap_row_labels: "map fst (sw_lap_rows laps) = rev [1..<Suc (length laps)]"
proof (rule nth_equalityI)
  show "length (map fst (sw_lap_rows laps)) = length (rev [1..<Suc (length laps)])"
    by (simp add: sw_lap_rows_def del: upt_Suc)
next
  fix i assume "i < length (map fst (sw_lap_rows laps))"
  then show "map fst (sw_lap_rows laps) ! i = rev [1..<Suc (length laps)] ! i"
    by (simp add: sw_lap_rows_def rev_nth nth_enumerate_eq del: upt_Suc)
qed

lemma sw_formatTime_shape: "sw_display_shape (sw_formatTime ms)"
proof -
  have "ms mod 60000 div 1000 < 100" "ms mod 1000 div 10 < 100" by linarith+
  then show ?thesis
    by (simp add: sw_display_shape_def sw_formatTime_def Let_def split_on_append_sep
        split_on_no_sep length_pad_start_ge)
qed

lemma sw_lap_rows_shape: "list_all (\<lambda>r. sw_display_shape (snd r)) (sw_lap_rows laps)"
  by (auto simp: sw_lap_rows_def list_all_iff sw_formatTime_shape)

subsection \<open>Properties\<close>

text \<open>
  C8. Every state the stopwatch reaches from its initial state, by any sequence of ticks
  and button presses, holds a multiple of 10 ms, and its laps are multiples of 10 ms, no
  later than the current time, and ordered most recent first.
\<close>

theorem sw_reachable_inv: "sw_inv (sw_run sw_init es)"
  using sw_init_inv by (rule sw_run_inv)

theorem sw_reachable_inv_witness:
  "sw_inv (sw_run sw_init [SwStartPause, SwTick, SwLap, SwTick, SwLap])"
  by (rule sw_reachable_inv)

text \<open>
  C9. Without a reset, the elapsed time never decreases, whatever the interleaving of
  ticks, start/pause and lap presses.
\<close>

theorem sw_time_monotone: "SwReset \<notin> set es \<Longrightarrow> sw_time s \<le> sw_time (sw_run s es)"
proof (induction es arbitrary: s)
  case Nil
  then show ?case by simp
next
  case (Cons e es)
  then have "e \<noteq> SwReset" by auto
  then have "sw_time s \<le> sw_time (sw_step s e)" by (rule sw_step_time_mono)
  also from Cons have "\<dots> \<le> sw_time (sw_run (sw_step s e) es)" by simp
  finally show ?case by simp
qed

theorem sw_time_monotone_witness:
  "SwReset \<notin> set [SwStartPause, SwTick, SwStartPause, SwTick] \<and>
   sw_time sw_init \<le> sw_time (sw_run sw_init [SwStartPause, SwTick, SwStartPause, SwTick])"
  using sw_time_monotone[of "[SwStartPause, SwTick, SwStartPause, SwTick]" sw_init] by simp

text \<open>
  C10. A lap pressed while running records the elapsed time \<open>E\<close> of that moment at
  the front of the list; until the next reset that entry stays, unchanged, in the list
  behind any later laps.
\<close>

theorem sw_lap_persists:
  assumes "sw_isRunning s" "SwReset \<notin> set es"
  shows "suffix (sw_time s # sw_laps s) (sw_laps (sw_run (sw_step s SwLap) es))"
proof -
  have "\<And>t. SwReset \<notin> set es \<Longrightarrow> suffix (sw_laps t) (sw_laps (sw_run t es))"
  proof (induction es)
    case Nil
    then show ?case by simp
  next
    case (Cons e es)
    then have "e \<noteq> SwReset" by auto
    then have "suffix (sw_laps t) (sw_laps (sw_step t e))" by (rule sw_step_laps_suffix)
    moreover from Cons have "suffix (sw_laps (sw_step t e)) (sw_laps (sw_run (sw_step t e) es))"
      by simp
    ultimately show ?case by (simp add: suffix_order.trans)
  qed
  then have "suffix (sw_laps (sw_step s SwLap)) (sw_laps (sw_run (sw_step s SwLap) es))"
    using assms(2) by blast
  with assms(1) show ?thesis by (simp add: sw_handleLap_def)
qed

theorem sw_lap_persists_witness:
  "sw_isRunning (sw_init\<lparr>sw_isRunning := True, sw_time := 40\<rparr>) \<and> SwReset \<notin> set [SwTick, SwLap] \<and>
   suffix [40] (sw_laps (sw_run (sw_step (sw_init\<lparr>sw_isRunning := True, sw_time := 40\<rparr>) SwLap) [SwTick, SwLap]))"
  using sw_lap_persists[of "sw_init\<lparr>sw_isRunning := True, sw_time := 40\<rparr>" "[SwTick, SwLap]"]
  by (simp add: sw_init_def)

text \<open>
  C11. The \<open>mm:ss.cc\<close> display of \<open>formatTime\<close> reads back as the elapsed time
  truncated to the centisecond: minutes, seconds and centiseconds lose nothing else, even
  past 99 minutes, where \<open>padStart\<close> leaves the longer minute field as it is.
\<close>

theorem sw_display_roundtrip: "sw_read_display (sw_formatTime ms) = Some (int (ms - ms mod 10))"
proof -
  have "int (ms - ms mod 10) = 60000 * int (ms div 60000) + 1000 * int (ms mod 60000 div 1000)
          + 10 * int (ms mod 1000 div 10)"
    using sw_fields_recompose[of ms] by linarith
  then show ?thesis
    by (simp add: sw_formatTime_def Let_def sw_read_display_parts del: of_nat_diff)
qed

text \<open>
  C12. \<open>n\<close> interval callbacks advance a running stopwatch by exactly \<open>10 n\<close> ms and
  leave its laps alone; on a paused stopwatch they change nothing.
\<close>

theorem sw_ticks_exact:
  "sw_run s (replicate n SwTick) =
     (if sw_isRunning s then s\<lparr>sw_time := sw_time s + 10 * n\<rparr> else s)"
  by (rule sw_run_ticks)


text \<open>
  C13. Every screen the stopwatch renders is well formed: the display has the shape
  \<open>mm:ss.cc\<close>; the lap panel is absent exactly when there is no lap, and otherwise its
  rows are labelled from \<open>laps.length\<close> down to 1, each with a display of that shape.
\<close>

theorem sw_render_well_formed:
  "sw_display_shape (ss_display (sw_render s)) \<and>
   (ss_lapPanel (sw_render s) = None \<longleftrightarrow> sw_laps s = []) \<and>
   (case ss_lapPanel (sw_render s) of
      None \<Rightarrow> sw_laps s = []
    | Some rows \<Rightarrow> map fst rows = rev [1..<Suc (length (sw_laps s))] \<and>
                  list_all (\<lambda>r. sw_display_shape (snd r)) rows)"
  by (simp add: sw_render_def sw_formatTime_shape sw_lap_row_labels sw_lap_rows_shape del: upt_Suc)

end
