(* ===== verification/Alarm.thy ===== *)
theory Alarm
  imports Prelude
begin

text \<open>
  The alarm clock widget, \<open>src/src/components/features/AlarmClock.tsx\<close>. Its state
  (\<open>currentTime\<close>, \<open>alarmTime\<close>, \<open>isAlarmSet\<close>, \<open>alarmTriggered\<close>) is the record
  \<open>alarm\<close>; a \<open>Date\<close> is its local wall-clock time in milliseconds, read by
  \<open>get_hours\<close>, \<open>get_minutes\<close> and \<open>get_seconds\<close>. The 1 s alarm check is a step that
  returns the new state and the effects it performs (the sound and the notification);
  the input and the two buttons keep their \<open>disabled\<close> conditions. The lemmas show how
  the check reads the \<open>HH:MM\<close> value, that the alarm fires only in second 0 of the target
  minute, at most once per arming, and always when the checks are at most a second apart,
  and that a slower check can miss it.
\<close>

subsection \<open>Wall-clock time\<close>

definition get_hours :: "ms \<Rightarrow> nat" where
  "get_hours t = (t div 3600000) mod 24"

definition get_minutes :: "ms \<Rightarrow> nat" where
  "get_minutes t = (t div 60000) mod 60"

definition get_seconds :: "ms \<Rightarrow> nat" where
  "get_seconds t = (t div 1000) mod 60"

text \<open>The value of an \<open><input type="time">\<close> with the default step: \<open>HH:MM\<close>.\<close>

definition time_input_value :: "nat \<Rightarrow> nat \<Rightarrow> string" where
  "time_input_value h m = pad_start 2 (CHR ''0'') (show_nat h) @ '':'' @ pad_start 2 (CHR ''0'') (show_nat m)"

subsection \<open>State, effects and operations\<close>

record alarm =
  al_currentTime :: ms
  al_alarmTime :: string
  al_isAlarmSet :: bool
  al_alarmTriggered :: bool

definition al_init :: "ms \<Rightarrow> alarm" where
  "al_init now = \<lparr>al_currentTime = now, al_alarmTime = [], al_isAlarmSet = False,
                  al_alarmTriggered = False\<rparr>"

text \<open>\<open>Notification.permission\<close>, with the browser that has no \<open>window.Notification\<close>.\<close>

datatype notif_perm = NoNotificationApi | PermGranted | PermDenied | PermDefault

datatype al_effect = PlaySound string | ShowNotification string string | RequestPermission

definition alarm_sound :: string where
  "alarm_sound = ''https://actions.google.com/sounds/v1/alarms/alarm_clock.ogg''"

text \<open>The mount effect that asks for notification permission.\<close>

definition al_mount_effects :: "notif_perm \<Rightarrow> al_effect list" where
  "al_mount_effects perm =
     (if perm \<noteq> NoNotificationApi \<and> perm \<noteq> PermGranted then [RequestPermission] else [])"

text \<open>The 1 s clock interval.\<close>

definition al_clock_tick :: "ms \<Rightarrow> alarm \<Rightarrow> alarm" where
  "al_clock_tick now s = s\<lparr>al_currentTime := now\<rparr>"

text \<open>
  The comparison inside the check: \<open>alarmTime.split(":")\<close> destructured into hour and
  minute, each through \<open>parseInt\<close> (\<open>NaN\<close>, here \<open>None\<close>, never equals a number).
\<close>

definition al_matches :: "string \<Rightarrow> ms \<Rightarrow> bool" where
  "al_matches alarmTime now =
     (let parts = split_on CHR '':'' alarmTime;
          alarmHour = js_index parts 0;
          alarmMinute = js_index parts 1
      in parse_int_opt alarmHour = Some (int (get_hours now)) \<and>
         parse_int_opt alarmMinute = Some (int (get_minutes now)) \<and>
         get_seconds now = 0)"

text \<open>
  The check interval, installed only while \<open>isAlarmSet\<close> holds and \<open>alarmTime\<close> is
  not empty: on a match it raises \<open>alarmTriggered\<close>, disarms, plays the sound and, with
  permission, shows a notification.
\<close>

definition al_check :: "notif_perm \<Rightarrow> ms \<Rightarrow> alarm \<Rightarrow> alarm \<times> al_effect list" where
  "al_check perm now s =
     (if \<not> al_isAlarmSet s \<or> al_alarmTime s = [] then (s, [])
      else if al_matches (al_alarmTime s) now then
        (s\<lparr>al_alarmTriggered := True, al_isAlarmSet := False\<rparr>,
         PlaySound alarm_sound #
         (if perm = PermGranted then [ShowNotification ''Alarm!'' (''It's '' @ al_alarmTime s)] else []))
      else (s, []))"

definition al_onChange :: "string \<Rightarrow> alarm \<Rightarrow> alarm" where
  "al_onChange v s = s\<lparr>al_alarmTime := v, al_alarmTriggered := False\<rparr>"

definition al_onSet :: "alarm \<Rightarrow> alarm" where
  "al_onSet s = (if al_alarmTime s \<noteq> [] then s\<lparr>al_isAlarmSet := True, al_alarmTriggered := False\<rparr> else s)"

definition al_onCancel :: "alarm \<Rightarrow> alarm" where
  "al_onCancel s = s\<lparr>al_isAlarmSet := False, al_alarmTriggered := False\<rparr>"

datatype al_event = AlClockTick ms | AlCheck ms | AlInput string | AlSet | AlCancel

text \<open>
  The input is disabled while the alarm is set, Set Alarm while it is set or the input is
  empty, Cancel while it is not set: a disabled control dispatches nothing.
\<close>

fun al_step :: "notif_perm \<Rightarrow> alarm \<Rightarrow> al_event \<Rightarrow> alarm \<times> al_effect list" where
  "al_step perm s (AlClockTick now) = (al_clock_tick now s, [])"
| "al_step perm s (AlCheck now) = al_check perm now s"
| "al_step perm s (AlInput v) = (if al_isAlarmSet s then (s, []) else (al_onChange v s, []))"
| "al_step perm s AlSet =
     (if al_isAlarmSet s \<or> al_alarmTime s = [] then (s, []) else (al_onSet s, []))"
| "al_step perm s AlCancel = (if \<not> al_isAlarmSet s then (s, []) else (al_onCancel s, []))"

fun al_run :: "notif_perm \<Rightarrow> alarm \<Rightarrow> al_event list \<Rightarrow> alarm \<times> al_effect list" where
  "al_run perm s [] = (s, [])"
| "al_run perm s (e # es) =
     (let (s', out) = al_step perm s e; (s'', out') = al_run perm s' es in (s'', out @ out'))"

text \<open>
  A list of instants at which the check interval fires, each at most \<open>d\<close> ms after
  the one before: \<open>setInterval(_, 1000)\<close> with no drift satisfies it for \<open>d = 1000\<close>.
\<close>

fun checks_within :: "nat \<Rightarrow> ms list \<Rightarrow> bool" where
  "checks_within d (a # b # rest) = (a \<le> b \<and> b \<le> a + d \<and> checks_within d (b # rest))"
| "checks_within d _ = True"

datatype al_status = StatusSet string | StatusRinging string | StatusNone

definition al_status :: "alarm \<Rightarrow> al_status" where
  "al_status s =
     (if al_isAlarmSet s then StatusSet (al_alarmTime s)
      else if al_alarmTriggered s then StatusRinging (al_alarmTime s)
      else StatusNone)"

subsection \<open>Lemmas\<close>

lemma al_matches_time_input:
  "al_matches (time_input_value h m) now \<longleftrightarrow>
     get_hours now = h \<and> get_minutes now = m \<and> get_seconds now = 0"
  by (auto simp: time_input_value_def al_matches_def split_on_append_sep split_on_no_sep
        js_index_def parse_int_opt_def)

lemma al_run_Cons_parts [simp]:
  "fst (al_run perm s (e # es)) = fst (al_run perm (fst (al_step perm s e)) es)"
  "snd (al_run perm s (e # es)) = snd (al_step perm s e) @ snd (al_run perm (fst (al_step perm s e)) es)"
  by (simp_all add: split_def Let_def)

declare al_run.simps(2) [simp del]

lemma al_step_unset:
  assumes "\<not> al_isAlarmSet s" "e \<noteq> AlSet"
  shows "snd (al_step perm s e) = [] \<and> \<not> al_isAlarmSet (fst (al_step perm s e))"
  using assms by (cases e) (simp_all add: al_check_def al_clock_tick_def al_onChange_def)

lemma al_run_idle:
  "\<not> al_isAlarmSet s \<Longrightarrow> AlSet \<notin> set es \<Longrightarrow>
     snd (al_run perm s es) = [] \<and> \<not> al_isAlarmSet (fst (al_run perm s es))"
proof (induction es arbitrary: s)
  case Nil
  then show ?case by simp
next
  case (Cons e es)
  then have "e \<noteq> AlSet" by auto
  with Cons.prems(1) have "snd (al_step perm s e) = []" "\<not> al_isAlarmSet (fst (al_step perm s e))"
    using al_step_unset by blast+
  with Cons show ?case by simp
qed

lemma al_step_sound:
  assumes "count_list (snd (al_step perm s e)) (PlaySound alarm_sound) \<noteq> 0"
  shows "count_list (snd (al_step perm s e)) (PlaySound alarm_sound) = 1 \<and>
         \<not> al_isAlarmSet (fst (al_step perm s e))"
  using assms by (cases e) (auto simp: al_check_def split: if_splits)

lemma al_run_sound_once:
  "AlSet \<notin> set es \<Longrightarrow> count_list (snd (al_run perm s es)) (PlaySound alarm_sound) \<le> 1"
proof (induction es arbitrary: s)
  case Nil
  then show ?case by simp
next
  case (Cons e es)
  obtain s' out where st: "al_step perm s e = (s', out)" by fastforce
  from Cons.prems have es: "AlSet \<notin> set es" by simp
  show ?case
  proof (cases "count_list out (PlaySound alarm_sound) = 0")
    case True
    with Cons.IH[OF es, of s'] st show ?thesis by simp
  next
    case False
    with al_step_sound[of perm s e] st have "count_list out (PlaySound alarm_sound) = 1"
      and "\<not> al_isAlarmSet s'" by auto
    with al_run_idle[OF _ es, of s' perm] st show ?thesis by simp
  qed
qed

lemma checks_hit_window:
  "checks_within d ts \<Longrightarrow> 0 < d \<Longrightarrow> ts \<noteq> [] \<Longrightarrow> hd ts \<le> T \<Longrightarrow> T \<le> last ts \<Longrightarrow>
     \<exists>t \<in> set ts. T \<le> t \<and> t < T + d"
proof (induction d ts rule: checks_within.induct)
  case (1 d a b rest)
  show ?case
  proof (cases "T \<le> b")
    case True
    with "1.prems" show ?thesis by (cases "a = T") auto
  next
    case False
    with "1.prems" "1.IH" show ?thesis by auto
  qed
qed auto

lemma clock_fields_by_second:
  "get_hours t = (t div 1000) div 3600 mod 24 \<and> get_minutes t = (t div 1000) div 60 mod 60 \<and>
   get_seconds t = (t div 1000) mod 60"
  by (simp add: get_hours_def get_minutes_def get_seconds_def div_mult2_eq[symmetric])

lemma same_second:
  assumes "T mod 1000 = 0" "T \<le> t" "t < T + 1000"
  shows "get_hours t = get_hours T \<and> get_minutes t = get_minutes T \<and> get_seconds t = get_seconds T"
proof -
  obtain q where T: "T = 1000 * q" using assms(1) by (metis mult_div_mod_eq add_0_right)
  obtain r where t: "t = T + r" "r < 1000" using assms(2,3) by (metis add_less_cancel_left le_Suc_ex)
  have "t div 1000 = T div 1000" using T t by simp
  then show ?thesis using clock_fields_by_second[of t] clock_fields_by_second[of T] by simp
qed

lemma al_checks_fire:
  "al_isAlarmSet s \<Longrightarrow> al_alarmTime s \<noteq> [] \<Longrightarrow> \<exists>t \<in> set ts. al_matches (al_alarmTime s) t \<Longrightarrow>
     PlaySound alarm_sound \<in> set (snd (al_run perm s (map AlCheck ts)))"
proof (induction ts)
  case Nil
  then show ?case by simp
next
  case (Cons a ts)
  show ?case
  proof (cases "al_matches (al_alarmTime s) a")
    case True
    with Cons.prems show ?thesis by (simp add: al_check_def)
  next
    case False
    with Cons.prems have "\<exists>t \<in> set ts. al_matches (al_alarmTime s) t" by auto
    with Cons.IH Cons.prems False show ?thesis by (simp add: al_check_def)
  qed
qed

lemma seconds_around:
  assumes "get_seconds T = 0" "T mod 1000 = 0" "0 < T"
  shows "get_seconds (T - 1) = 59 \<and> get_seconds (T + 1000) = 1"
proof -
  obtain q where T: "T = 1000 * q" using assms(2) by (metis mult_div_mod_eq add_0_right)
  with assms(1) have "q mod 60 = 0" by (simp add: get_seconds_def)
  then obtain r where q: "q = 60 * r" by (metis mult_div_mod_eq add_0_right)
  with T assms(3) obtain r' where r: "r = Suc r'" by (cases r) auto
  with T q have T': "T = 60000 * r' + 60000" by simp
  have "(T - 1) div 1000 = 60 * r' + 59" unfolding T' by (rule div_nat_eqI) simp_all
  moreover have "(T + 1000) div 1000 = 60 * r' + 61" unfolding T' by (rule div_nat_eqI) simp_all
  ultimately show ?thesis by (simp add: get_seconds_def)
qed

lemma al_checks_only_match:
  "PlaySound alarm_sound \<in> set (snd (al_run perm s (map AlCheck ts))) \<Longrightarrow>
     \<exists>t \<in> set ts. al_matches (al_alarmTime s) t"
proof (induction ts arbitrary: s)
  case Nil
  then show ?case by simp
next
  case (Cons a ts)
  then show ?case by (auto simp: al_check_def split: if_splits)
qed

subsection \<open>Invariant\<close>

definition al_inv :: "alarm \<Rightarrow> bool" where
  "al_inv s \<longleftrightarrow> (al_isAlarmSet s \<longrightarrow> al_alarmTime s \<noteq> [] \<and> \<not> al_alarmTriggered s)"

lemma al_step_inv: "al_inv s \<Longrightarrow> al_inv (fst (al_step perm s e))"
  by (cases e) (auto simp: al_inv_def al_check_def al_clock_tick_def al_onChange_def al_onSet_def
      al_onCancel_def)

lemma al_run_inv: "al_inv s \<Longrightarrow> al_inv (fst (al_run perm s es))"
  by (induction es arbitrary: s) (simp_all add: al_step_inv)

subsection \<open>Properties\<close>

text \<open>
  C14. An armed alarm whose input holds \<open>HH:MM\<close> fires on a check at a time whose hour
  is \<open>HH\<close>, whose minute is \<open>MM\<close> and whose second is 0: it disarms, shows the ringing
  status, plays the sound, and shows a notification exactly when permission is granted.
\<close>

theorem al_fires_at_target:
  assumes "al_isAlarmSet s" "al_alarmTime s = time_input_value h m"
    "get_hours now = h" "get_minutes now = m" "get_seconds now = 0"
  shows "al_step perm s (AlCheck now) =
           (s\<lparr>al_alarmTriggered := True, al_isAlarmSet := False\<rparr>,
            PlaySound alarm_sound #
            (if perm = PermGranted
             then [ShowNotification ''Alarm!'' (''It's '' @ time_input_value h m)] else [])) \<and>
         al_status (fst (al_step perm s (AlCheck now))) = StatusRinging (time_input_value h m)"
proof -
  have "al_matches (al_alarmTime s) now" using assms(2-5) by (simp add: al_matches_time_input)
  moreover have "al_alarmTime s \<noteq> []" using assms(2) by (simp add: time_input_value_def)
  ultimately show ?thesis using assms(1,2) by (simp add: al_check_def al_status_def)
qed

theorem al_fires_at_target_witness:
  "al_step PermGranted ((al_init 0)\<lparr>al_alarmTime := time_input_value 7 30, al_isAlarmSet := True\<rparr>)
      (AlCheck 27000000) =
     ((al_init 0)\<lparr>al_alarmTime := time_input_value 7 30, al_alarmTriggered := True\<rparr>,
      [PlaySound alarm_sound, ShowNotification ''Alarm!'' (''It's '' @ time_input_value 7 30)])"
  using al_fires_at_target[of "(al_init 0)\<lparr>al_alarmTime := time_input_value 7 30, al_isAlarmSet := True\<rparr>"
      7 30 27000000 PermGranted]
  by (simp add: get_hours_def get_minutes_def get_seconds_def al_init_def)

text \<open>
  C15. Between two arming actions the alarm rings at most once: whatever ticks, checks,
  inputs and cancels arrive, a run without Set Alarm plays the sound at most once.
\<close>

theorem al_fires_at_most_once:
  "AlSet \<notin> set es \<Longrightarrow> count_list (snd (al_run perm s es)) (PlaySound alarm_sound) \<le> 1"
  by (rule al_run_sound_once)

theorem al_fires_at_most_once_witness:
  "count_list (snd (al_run PermDenied ((al_init 0)\<lparr>al_alarmTime := time_input_value 7 30, al_isAlarmSet := True\<rparr>)
     [AlCheck 27000000, AlCheck 27000500, AlClockTick 27000600, AlCancel])) (PlaySound alarm_sound) \<le> 1"
  by (rule al_fires_at_most_once) simp

text \<open>
  C16. A check interval that never waits more than a second between two checks cannot miss
  the alarm: if the alarm is armed for the minute of a whole second \<open>T\<close> with second 0,
  and the checks start no later than \<open>T\<close> and go on until at least \<open>T\<close>, the sound plays.
\<close>

theorem al_fires_when_checks_dense:
  assumes "al_isAlarmSet s" "al_alarmTime s = time_input_value (get_hours T) (get_minutes T)"
    "get_seconds T = 0" "T mod 1000 = 0"
    "checks_within 1000 ts" "ts \<noteq> []" "hd ts \<le> T" "T \<le> last ts"
  shows "PlaySound alarm_sound \<in> set (snd (al_run perm s (map AlCheck ts)))"
proof -
  have "\<exists>t \<in> set ts. T \<le> t \<and> t < T + 1000"
    using assms(5) _ assms(6-8) by (rule checks_hit_window) simp
  then obtain t where t: "t \<in> set ts" "T \<le> t" "t < T + 1000" by blast
  from same_second[OF assms(4) t(2,3)] assms(3)
  have "get_hours t = get_hours T" "get_minutes t = get_minutes T" "get_seconds t = 0" by simp_all
  then have "al_matches (al_alarmTime s) t" unfolding assms(2) al_matches_time_input by simp
  with t(1) have ex: "\<exists>t \<in> set ts. al_matches (al_alarmTime s) t" by blast
  have "al_alarmTime s \<noteq> []" unfolding assms(2) by (simp add: time_input_value_def)
  from al_checks_fire[OF assms(1) this ex] show ?thesis .
qed

theorem al_fires_when_checks_dense_witness:
  "PlaySound alarm_sound \<in> set (snd (al_run PermDefault
     ((al_init 0)\<lparr>al_alarmTime := time_input_value (get_hours 27000000) (get_minutes 27000000),
                   al_isAlarmSet := True\<rparr>) (map AlCheck [26998700, 26999650, 27000640, 27001600])))"
proof -
  let ?s = "(al_init 0)\<lparr>al_alarmTime := time_input_value (get_hours 27000000) (get_minutes 27000000),
                   al_isAlarmSet := True\<rparr>"
  let ?ts = "[26998700, 26999650, 27000640, 27001600] :: ms list"
  have a: "al_isAlarmSet ?s" and b: "al_alarmTime ?s = time_input_value (get_hours 27000000) (get_minutes 27000000)"
    by simp_all
  have c: "get_seconds 27000000 = 0" by (simp add: get_seconds_def)
  have d: "(27000000::ms) mod 1000 = 0" by simp
  have e: "checks_within 1000 ?ts" and f: "?ts \<noteq> []" and g: "hd ?ts \<le> 27000000"
    and h: "27000000 \<le> last ?ts"
    by simp_all
  from al_fires_when_checks_dense[OF a b c d e f g h] show ?thesis .
qed

text \<open>
  C17. Checks that reach no instant of the target second never fire: a run of checks plays
  the sound only if one of its instants matches the alarm's hour and minute at second 0.
\<close>

theorem al_fires_only_on_match:
  "PlaySound alarm_sound \<in> set (snd (al_run perm s (map AlCheck ts))) \<Longrightarrow>
     \<exists>t \<in> set ts. al_matches (al_alarmTime s) t"
  by (rule al_checks_only_match)

theorem al_fires_only_on_match_witness:
  "\<exists>t \<in> set [27000000]. al_matches (al_alarmTime
     ((al_init 0)\<lparr>al_alarmTime := time_input_value 7 30, al_isAlarmSet := True\<rparr>)) t"
proof -
  have "PlaySound alarm_sound \<in> set (snd (al_run PermDenied
     ((al_init 0)\<lparr>al_alarmTime := time_input_value 7 30, al_isAlarmSet := True\<rparr>) (map AlCheck [27000000])))"
    using al_fires_at_target[of "(al_init 0)\<lparr>al_alarmTime := time_input_value 7 30, al_isAlarmSet := True\<rparr>"
      7 30 27000000 PermDenied]
    by (simp add: get_hours_def get_minutes_def get_seconds_def al_init_def al_run.simps(2))
  then show ?thesis by (rule al_fires_only_on_match)
qed

text \<open>
  C18. The one-second bound of C16 is tight: for every bound \<open>d > 1000\<close> and every alarm
  set to the minute of a whole second \<open>T\<close> with second 0, there are checks at most
  \<open>d\<close> apart that start before \<open>T\<close> and end after it and still never ring: one in the
  last millisecond of the previous second, the next in the following second.
\<close>

theorem al_jitter_misses:
  assumes "1000 < d" "get_seconds T = 0" "T mod 1000 = 0" "0 < T"
    "al_alarmTime s = time_input_value (get_hours T) (get_minutes T)"
  shows "\<exists>ts. checks_within d ts \<and> ts \<noteq> [] \<and> hd ts \<le> T \<and> T \<le> last ts \<and>
              PlaySound alarm_sound \<notin> set (snd (al_run perm s (map AlCheck ts)))"
proof
  let ?ts = "[T - 1, T + 1000]"
  have "\<not> al_matches (al_alarmTime s) t" if "t \<in> set ?ts" for t
    using that seconds_around[OF assms(2-4)] assms(5) by (auto simp: al_matches_time_input)
  then have "PlaySound alarm_sound \<notin> set (snd (al_run perm s (map AlCheck ?ts)))"
    using al_checks_only_match by blast
  moreover have "checks_within d ?ts" using assms(1,4) by simp linarith
  ultimately show "checks_within d ?ts \<and> ?ts \<noteq> [] \<and> hd ?ts \<le> T \<and> T \<le> last ?ts \<and>
      PlaySound alarm_sound \<notin> set (snd (al_run perm s (map AlCheck ?ts)))" by simp
qed

theorem al_jitter_misses_witness:
  "\<exists>ts. checks_within 1001 ts \<and> ts \<noteq> [] \<and> hd ts \<le> 27000000 \<and> 27000000 \<le> last ts \<and>
     PlaySound alarm_sound \<notin> set (snd (al_run PermGranted
       ((al_init 0)\<lparr>al_alarmTime := time_input_value 7 30, al_isAlarmSet := True\<rparr>) (map AlCheck ts)))"
proof -
  have "get_seconds 27000000 = 0" "get_hours 27000000 = 7" "get_minutes 27000000 = 30"
    by (simp_all add: get_seconds_def get_hours_def get_minutes_def)
  with al_jitter_misses[of 1001 27000000 "(al_init 0)\<lparr>al_alarmTime := time_input_value 7 30, al_isAlarmSet := True\<rparr>"
      PermGranted]
  show ?thesis by simp
qed

text \<open>
  C19. The check reads the input's \<open>HH:MM\<close> value through \<open>split\<close> and \<open>parseInt\<close>
  exactly: it matches an instant if and only if the instant's hour and minute are the typed
  ones and its second is 0, leading zeros included.
\<close>

theorem al_matches_input_value:
  "al_matches (time_input_value h m) now \<longleftrightarrow>
     get_hours now = h \<and> get_minutes now = m \<and> get_seconds now = 0"
  by (rule al_matches_time_input)

text \<open>
  C20. In every state reachable from the mounted widget, an armed alarm has a non-empty
  time and is not ringing, so the status panel never shows both.
\<close>

theorem al_reachable_inv: "al_inv (fst (al_run perm (al_init now) es))"
  by (rule al_run_inv) (simp add: al_inv_def al_init_def)

theorem al_reachable_inv_witness:
  "al_inv (fst (al_run PermGranted (al_init 0) [AlInput ''07:30'', AlSet, AlCheck 27000000, AlInput ''08:00'']))"
  by (rule al_reachable_inv)

end
