(* ===== verification/Orientation.thy ===== *)
theory Orientation
  imports Prelude
begin

text \<open>
  The orientation detector and view selector, \<open>src/src/components/OrientationApp.tsx\<close>.
  The component's state (\<open>orientation\<close>, \<open>isTransitioning\<close>) is the record
  \<open>orientation_app\<close>, extended with what the effect leaves in the browser: whether the
  \<open>deviceorientation\<close> listener is installed, and the deadlines of the pending
  \<open>setTimeout(..., 300)\<close> callbacks that end a fade. What a handler reads from
  \<open>window\<close> and \<open>screen\<close> is a \<open>window_env\<close> given with the event. Tilt angles are
  JavaScript numbers, here \<open>real\<close>. The lemmas give the mapping from signals to views,
  the permission fallback, the end of every fade, and the fades that readings start
  without any change of view.
\<close>

subsection \<open>Data\<close>

datatype orientation_type = PortraitPrimary | LandscapePrimary | PortraitSecondary | LandscapeSecondary

text \<open>What the handlers read: \<open>screen.orientation?.type\<close> and the viewport size.\<close>

record window_env =
  screen_orientation :: "orientation_type option"
  innerWidth :: nat
  innerHeight :: nat

record orientation_app =
  or_orientation :: orientation_type
  or_isTransitioning :: bool
  or_tiltListener :: bool
  or_timeouts :: "ms list"

text \<open>The four widgets the dispatcher mounts.\<close>

datatype view = AlarmView | StopwatchView | TimerView | WeatherView

subsection \<open>Handlers\<close>

definition or_isLandscape :: "window_env \<Rightarrow> bool" where
  "or_isLandscape env \<longleftrightarrow> innerWidth env > innerHeight env"

text \<open>\<open>handleOrientationChange\<close>, run at mount and on \<open>orientationchange\<close> and \<open>resize\<close>.\<close>

definition or_handleOrientationChange :: "ms \<Rightarrow> window_env \<Rightarrow> orientation_app \<Rightarrow> orientation_app" where
  "or_handleOrientationChange now env s =
     s\<lparr>or_isTransitioning := True,
       or_orientation :=
         (case screen_orientation env of
            Some ty \<Rightarrow> ty
          | None \<Rightarrow> if or_isLandscape env then LandscapePrimary else PortraitPrimary),
       or_timeouts := or_timeouts s @ [now + 300]\<rparr>"

text \<open>
  \<open>handleDeviceOrientation\<close>: a reading with a \<open>null\<close> angle (here \<open>None\<close>) is
  ignored; otherwise \<open>gamma\<close> decides in landscape and \<open>beta\<close> in portrait.
\<close>

definition or_tilt_orientation :: "window_env \<Rightarrow> real \<Rightarrow> real \<Rightarrow> orientation_type" where
  "or_tilt_orientation env gamma beta =
     (if or_isLandscape env then
        (if gamma > 45 then LandscapeSecondary else LandscapePrimary)
      else
        (if \<bar>beta\<bar> > 135 \<or> beta < -90 then PortraitSecondary else PortraitPrimary))"

definition or_handleDeviceOrientation ::
  "ms \<Rightarrow> window_env \<Rightarrow> real option \<Rightarrow> real option \<Rightarrow> orientation_app \<Rightarrow> orientation_app" where
  "or_handleDeviceOrientation now env gamma beta s =
     (case (gamma, beta) of
        (Some g, Some b) \<Rightarrow>
          s\<lparr>or_orientation := or_tilt_orientation env g b, or_isTransitioning := True,
            or_timeouts := or_timeouts s @ [now + 300]\<rparr>
      | _ \<Rightarrow> s)"

text \<open>
  \<open>requestOrientationPermission\<close>. Without \<open>DeviceOrientationEvent.requestPermission\<close>
  the listener is added at once; with it, the listener is added when the promise resolves
  to \<open>'granted'\<close>, and not when it resolves otherwise or rejects.
\<close>

datatype permission_result = Granted | Denied | Rejected

definition or_permission_resolved :: "permission_result \<Rightarrow> orientation_app \<Rightarrow> orientation_app" where
  "or_permission_resolved r s = (if r = Granted then s\<lparr>or_tiltListener := True\<rparr> else s)"

text \<open>The fade timer: the pending timeout with the earliest deadline fires.\<close>

definition or_timeout_fires :: "orientation_app \<Rightarrow> orientation_app" where
  "or_timeout_fires s =
     (case or_timeouts s of
        [] \<Rightarrow> s
      | d # rest \<Rightarrow> s\<lparr>or_isTransitioning := False, or_timeouts := rest\<rparr>)"

text \<open>
  Mount: the initial state \<open>'portrait-primary'\<close>, the listeners, the first call of
  \<open>handleOrientationChange\<close> and the synchronous part of the permission request.
\<close>

definition or_mount :: "ms \<Rightarrow> window_env \<Rightarrow> bool \<Rightarrow> orientation_app" where
  "or_mount now env hasRequestPermission =
     or_handleOrientationChange now env
       \<lparr>or_orientation = PortraitPrimary, or_isTransitioning = False,
        or_tiltListener = \<not> hasRequestPermission, or_timeouts = []\<rparr>"

datatype or_event =
    OrOrientationChange ms window_env
  | OrDeviceOrientation ms window_env "real option" "real option"
  | OrPermission permission_result
  | OrTimeout
  | OrDemo orientation_type

text \<open>A reading reaches the handler only when the listener is installed.\<close>

fun or_step :: "orientation_app \<Rightarrow> or_event \<Rightarrow> orientation_app" where
  "or_step s (OrOrientationChange now env) = or_handleOrientationChange now env s"
| "or_step s (OrDeviceOrientation now env g b) =
     (if or_tiltListener s then or_handleDeviceOrientation now env g b s else s)"
| "or_step s (OrPermission r) = or_permission_resolved r s"
| "or_step s OrTimeout = or_timeout_fires s"
| "or_step s (OrDemo o') = s\<lparr>or_orientation := o'\<rparr>"

fun or_run :: "orientation_app \<Rightarrow> or_event list \<Rightarrow> orientation_app" where
  "or_run s [] = s"
| "or_run s (e # es) = or_run (or_step s e) es"

subsection \<open>The dispatcher\<close>

text \<open>\<open>renderCurrentView\<close> and \<open>getBackgroundClass\<close>; the \<open>default\<close> branches are unreachable for the closed type.\<close>

fun or_renderCurrentView :: "orientation_type \<Rightarrow> view" where
  "or_renderCurrentView PortraitPrimary = AlarmView"
| "or_renderCurrentView LandscapePrimary = StopwatchView"
| "or_renderCurrentView PortraitSecondary = TimerView"
| "or_renderCurrentView LandscapeSecondary = WeatherView"

fun or_getBackgroundClass :: "orientation_type \<Rightarrow> string" where
  "or_getBackgroundClass PortraitPrimary = ''bg-gradient-alarm''"
| "or_getBackgroundClass LandscapePrimary = ''bg-gradient-stopwatch''"
| "or_getBackgroundClass PortraitSecondary = ''bg-gradient-timer''"
| "or_getBackgroundClass LandscapeSecondary = ''bg-gradient-weather''"

text \<open>The theme name of each widget, as the stylesheet names the gradients.\<close>

fun view_theme :: "view \<Rightarrow> string" where
  "view_theme AlarmView = ''alarm''"
| "view_theme StopwatchView = ''stopwatch''"
| "view_theme TimerView = ''timer''"
| "view_theme WeatherView = ''weather''"

text \<open>The events of a run in which the orientation can only come from the viewport size.\<close>

fun or_sizes_only :: "or_event \<Rightarrow> bool" where
  "or_sizes_only (OrOrientationChange now env) = (screen_orientation env = None)"
| "or_sizes_only (OrDeviceOrientation now env g b) = True"
| "or_sizes_only (OrPermission r) = (r \<noteq> Granted)"
| "or_sizes_only OrTimeout = True"
| "or_sizes_only (OrDemo o') = False"

subsection \<open>Lemmas\<close>

definition or_fade_inv :: "orientation_app \<Rightarrow> bool" where
  "or_fade_inv s \<longleftrightarrow> (or_isTransitioning s \<longrightarrow> or_timeouts s \<noteq> [])"

lemmas or_handlers = or_handleOrientationChange_def or_handleDeviceOrientation_def
  or_permission_resolved_def or_timeout_fires_def

lemma or_run_append [simp]: "or_run s (xs @ ys) = or_run (or_run s xs) ys"
  by (induction xs arbitrary: s) simp_all

lemma or_step_fade_inv: "or_fade_inv s \<Longrightarrow> or_fade_inv (or_step s e)"
  by (cases e) (auto simp: or_fade_inv_def or_handlers split: option.splits list.splits)

lemma or_run_fade_inv: "or_fade_inv s \<Longrightarrow> or_fade_inv (or_run s es)"
  by (induction es arbitrary: s) (simp_all add: or_step_fade_inv)

lemma or_mount_fade_inv: "or_fade_inv (or_mount now env p)"
  by (simp add: or_fade_inv_def or_mount_def or_handleOrientationChange_def)

lemma or_timeouts_drain:
  "or_timeouts s \<noteq> [] \<Longrightarrow> \<not> or_isTransitioning (or_run s (replicate (length (or_timeouts s)) OrTimeout))"
proof (induction "or_timeouts s" arbitrary: s)
  case Nil
  then show ?case by simp
next
  case (Cons d rest)
  let ?t = "or_timeout_fires s"
  have t: "or_timeouts ?t = rest" "\<not> or_isTransitioning ?t"
    using Cons.hyps(2)[symmetric] by (simp_all add: or_timeout_fires_def)
  show ?case
  proof (cases rest)
    case Nil
    with Cons.hyps(2)[symmetric] t show ?thesis by simp
  next
    case (Cons d' rest')
    then have "\<not> or_isTransitioning (or_run ?t (replicate (length (or_timeouts ?t)) OrTimeout))"
      using Cons.hyps(1)[of ?t] t by simp
    with Cons.hyps(2)[symmetric] t show ?thesis by simp
  qed
qed

lemma or_fade_drain: "or_fade_inv s \<Longrightarrow> \<not> or_isTransitioning (or_run s (replicate (length (or_timeouts s)) OrTimeout))"
  using or_timeouts_drain[of s] by (cases "or_timeouts s") (auto simp: or_fade_inv_def)

lemma or_sizes_only_step:
  assumes "\<not> or_tiltListener s" "or_orientation s \<in> {PortraitPrimary, LandscapePrimary}" "or_sizes_only e"
  shows "\<not> or_tiltListener (or_step s e) \<and> or_orientation (or_step s e) \<in> {PortraitPrimary, LandscapePrimary}"
  using assms by (cases e) (auto simp: or_handlers split: option.splits list.splits)

lemma or_sizes_only_run:
  "\<not> or_tiltListener s \<Longrightarrow> or_orientation s \<in> {PortraitPrimary, LandscapePrimary} \<Longrightarrow>
     list_all or_sizes_only es \<Longrightarrow> or_orientation (or_run s es) \<in> {PortraitPrimary, LandscapePrimary}"
proof (induction es arbitrary: s)
  case Nil
  then show ?case by simp
next
  case (Cons e es)
  then have "\<not> or_tiltListener (or_step s e)" "or_orientation (or_step s e) \<in> {PortraitPrimary, LandscapePrimary}"
    using or_sizes_only_step[of s e] by simp_all
  with Cons show ?case by simp
qed

subsection \<open>Properties\<close>

text \<open>
  C21. Without the Screen Orientation API, an orientation change selects the stopwatch
  exactly when the viewport is wider than tall, and the alarm clock otherwise: 800 by 400
  shows the stopwatch, 400 by 800 the alarm clock.
\<close>

theorem or_size_fallback:
  assumes "screen_orientation env = None"
  shows "or_renderCurrentView (or_orientation (or_handleOrientationChange now env s)) =
           (if innerHeight env < innerWidth env then StopwatchView else AlarmView)"
  using assms by (simp add: or_handleOrientationChange_def or_isLandscape_def)

theorem or_size_fallback_witness:
  "or_renderCurrentView (or_orientation (or_handleOrientationChange 300
      \<lparr>screen_orientation = None, innerWidth = 800, innerHeight = 400\<rparr>
      (or_mount 0 \<lparr>screen_orientation = None, innerWidth = 400, innerHeight = 800\<rparr> False))) = StopwatchView \<and>
   or_renderCurrentView (or_orientation (or_handleOrientationChange 300
      \<lparr>screen_orientation = None, innerWidth = 400, innerHeight = 800\<rparr>
      (or_mount 0 \<lparr>screen_orientation = None, innerWidth = 800, innerHeight = 400\<rparr> False))) = AlarmView"
  using or_size_fallback[of "\<lparr>screen_orientation = None, innerWidth = 800, innerHeight = 400\<rparr>" 300
      "or_mount 0 \<lparr>screen_orientation = None, innerWidth = 400, innerHeight = 800\<rparr> False"]
    or_size_fallback[of "\<lparr>screen_orientation = None, innerWidth = 400, innerHeight = 800\<rparr>" 300
      "or_mount 0 \<lparr>screen_orientation = None, innerWidth = 800, innerHeight = 400\<rparr> False"]
  by simp

text \<open>
  A tilt reading with both angles selects, in landscape, the weather panel exactly when
  \<open>gamma > 45\<close> and the stopwatch otherwise; in portrait, the timer exactly when
  \<open>beta < -90\<close> or \<open>beta > 135\<close> and the alarm clock otherwise. The code's test
  \<open>|beta| > 135 || beta < -90\<close> is this asymmetric band: \<open>beta = -100\<close> counts as
  upside down, \<open>beta = 100\<close> does not.
\<close>

lemma or_tilt_views:
  "or_renderCurrentView (or_tilt_orientation env g b) =
     (if innerHeight env < innerWidth env then (if 45 < g then WeatherView else StopwatchView)
      else if b < -90 \<or> 135 < b then TimerView else AlarmView)"
  by (auto simp: or_tilt_orientation_def or_isLandscape_def)

text \<open>
  A reading in which the platform reports \<open>null\<close> for either angle changes nothing:
  no view change and no fade.
\<close>

lemma or_null_reading_ignored:
  "g = None \<or> b = None \<Longrightarrow> or_step s (OrDeviceOrientation now env g b) = s"
  by (auto simp: or_handleDeviceOrientation_def split: option.splits)

text \<open>
  C22. When neither the Screen Orientation API nor tilt readings are available (no
  orientation type in any event, permission never granted) and the demo buttons are not
  used, only the alarm clock and the stopwatch can be shown.
\<close>

theorem or_fallback_two_views:
  assumes "screen_orientation env = None" "list_all or_sizes_only es"
  shows "or_renderCurrentView (or_orientation (or_run (or_mount now env True) es)) \<in> {AlarmView, StopwatchView}"
proof -
  have "\<not> or_tiltListener (or_mount now env True)"
    "or_orientation (or_mount now env True) \<in> {PortraitPrimary, LandscapePrimary}"
    using assms(1) by (simp_all add: or_mount_def or_handleOrientationChange_def)
  from or_sizes_only_run[OF this assms(2)] show ?thesis by auto
qed

theorem or_fallback_two_views_witness:
  "or_renderCurrentView (or_orientation (or_run
     (or_mount 0 \<lparr>screen_orientation = None, innerWidth = 400, innerHeight = 800\<rparr> True)
     [OrOrientationChange 5 \<lparr>screen_orientation = None, innerWidth = 800, innerHeight = 400\<rparr>,
      OrPermission Denied,
      OrDeviceOrientation 10 \<lparr>screen_orientation = None, innerWidth = 800, innerHeight = 400\<rparr> (Some 60) (Some 170),
      OrTimeout])) \<in> {AlarmView, StopwatchView}"
  by (rule or_fallback_two_views) simp_all

text \<open>
  C23. With the Screen Orientation API the reported type is used as it is, even when tilt
  permission was never granted: at mount, any of the four views is shown for the
  corresponding \<open>screen.orientation.type\<close>, with no tilt listener installed.
\<close>

theorem or_screen_type_any_view:
  "or_renderCurrentView (or_orientation (or_mount now (env\<lparr>screen_orientation := Some ty\<rparr>) True)) =
     or_renderCurrentView ty \<and>
   \<not> or_tiltListener (or_mount now (env\<lparr>screen_orientation := Some ty\<rparr>) True)"
  by (simp add: or_mount_def or_handleOrientationChange_def)

text \<open>
  C24. Every fade ends: from any state reached after mount, once the pending 300 ms
  timeouts have fired, \<open>isTransitioning\<close> is false and the widget is visible.
\<close>

theorem or_fade_ends:
  "\<not> or_isTransitioning (or_run (or_run (or_mount now env p) es)
        (replicate (length (or_timeouts (or_run (or_mount now env p) es))) OrTimeout))"
  using or_run_fade_inv[OF or_mount_fade_inv] by (rule or_fade_drain)

text \<open>
  C25. Every tilt reading with both angles restarts the fade and schedules another 300 ms
  timeout, also when it selects the orientation that is already shown. A device reports
  readings many times a second, so while the sensor streams the content keeps fading out
  without any change of view.
\<close>

theorem or_reading_fades_without_change:
  assumes "or_tiltListener s" "or_orientation s = or_tilt_orientation env g b"
  shows "or_orientation (or_step s (OrDeviceOrientation now env (Some g) (Some b))) = or_orientation s \<and>
         or_isTransitioning (or_step s (OrDeviceOrientation now env (Some g) (Some b))) \<and>
         or_timeouts (or_step s (OrDeviceOrientation now env (Some g) (Some b))) = or_timeouts s @ [now + 300]"
  using assms by (simp add: or_handleDeviceOrientation_def)

theorem or_reading_fades_without_change_witness:
  "or_isTransitioning (or_step (or_timeout_fires (or_mount 0 \<lparr>screen_orientation = None, innerWidth = 400, innerHeight = 800\<rparr> False))
     (OrDeviceOrientation 316 \<lparr>screen_orientation = None, innerWidth = 400, innerHeight = 800\<rparr> (Some 0) (Some 60))) \<and>
   or_orientation (or_timeout_fires (or_mount 0 \<lparr>screen_orientation = None, innerWidth = 400, innerHeight = 800\<rparr> False)) =
     PortraitPrimary"
proof -
  let ?env = "\<lparr>screen_orientation = None, innerWidth = 400, innerHeight = 800\<rparr>"
  let ?s = "or_timeout_fires (or_mount 0 ?env False)"
  have l: "or_tiltListener ?s" and o: "or_orientation ?s = or_tilt_orientation ?env 0 60"
    by (simp_all add: or_mount_def or_handlers or_isLandscape_def or_tilt_orientation_def)
  from or_reading_fades_without_change[OF l o, of 316] o show ?thesis
    by (simp add: or_tilt_orientation_def or_isLandscape_def)
qed

text \<open>
  The two dispatch tables agree: the background class of every orientation is the
  gradient of the widget it renders, and the rendering is a bijection between the four
  orientation types and the four widgets.
\<close>

lemma or_dispatch_consistent:
  "or_getBackgroundClass ty = ''bg-gradient-'' @ view_theme (or_renderCurrentView ty) \<and>
   bij or_renderCurrentView"
proof -
  have "inj or_renderCurrentView"
  proof (rule injI)
    fix x y assume "or_renderCurrentView x = or_renderCurrentView y"
    then show "x = y" by (cases x; cases y) simp_all
  qed
  moreover have "surj or_renderCurrentView"
  proof (rule surjI)
    fix v show "or_renderCurrentView (case v of AlarmView \<Rightarrow> PortraitPrimary | StopwatchView \<Rightarrow> LandscapePrimary
        | TimerView \<Rightarrow> PortraitSecondary | WeatherView \<Rightarrow> LandscapeSecondary) = v"
      by (cases v) simp_all
  qed
  moreover have "or_getBackgroundClass ty = ''bg-gradient-'' @ view_theme (or_renderCurrentView ty)"
    by (cases ty) simp_all
  ultimately show ?thesis by (simp add: bij_def)
qed

end
