(* ===== verification/Weather.thy ===== *)
theory Weather
  imports Prelude
begin

text \<open>
  The weather panel, \<open>src/src/components/features/Weather.tsx\<close>. Its React state
  (\<open>weather\<close>, \<open>loading\<close>, \<open>error\<close>, \<open>search\<close>, \<open>query\<close>) is the record
  \<open>weather_state\<close>, extended with the requests in flight (\<open>fetch\<close> calls whose promise
  has not settled, in the order they were issued) and the number of outstanding
  \<open>getCurrentPosition\<close> callbacks. \<open>fetchWeather\<close> is split at its \<open>await\<close>: the
  synchronous start, which chooses the request or fails with "No location provided", and
  the completion, which turns the outcome of the request into a snapshot or an error
  message. The outcome of a request (a rejection, or a response with status, status text,
  body text and the result of \<open>res.json()\<close> and the field reads) is an input of the
  model: the server, the network and \<open>JSON.parse\<close> are not modelled. Responses may
  arrive in any order, so a run chooses which pending request settles next. The main
  view's snapshot panel is \<open>we_panel\<close>, with numbers printed by \<open>show_int\<close>.
\<close>

subsection \<open>Data\<close>

record weather_data =
  wd_location :: string
  wd_temperature :: int
  wd_condition :: string
  wd_humidity :: real
  wd_windSpeed :: int
  wd_icon :: string

text \<open>
  The fields of the OpenWeather body the code reads: \<open>name\<close>, \<open>sys.country\<close>,
  \<open>main.temp\<close>, \<open>main.humidity\<close>, the \<open>weather\<close> array as (\<open>main\<close>, \<open>icon\<close>)
  pairs, \<open>wind.speed\<close>.
\<close>

record owm_data =
  owm_name :: string
  owm_country :: string
  owm_temp :: real
  owm_humidity :: real
  owm_weather :: "(string \<times> string) list"
  owm_wind_speed :: real

text \<open>\<open>res.json()\<close> and the field reads: a thrown error with its message, or the fields.\<close>

datatype json_result = JsonError string | JsonData owm_data

text \<open>
  A settled \<open>fetch\<close>: rejected with an error message, or a response with its status, status
  text, body text (read when not \<open>ok\<close>) and JSON result (read when \<open>ok\<close>).
\<close>

datatype http_outcome = FetchRejected string | Response nat string string json_result

datatype request = ByCity string | ByCoords real real

record weather_state =
  we_weather :: "weather_data option"
  we_loading :: bool
  we_error :: "string option"
  we_search :: string
  we_query :: string
  we_pending :: "request list"
  we_geo_requests :: nat

definition we_init :: weather_state where
  "we_init = \<lparr>we_weather = None, we_loading = True, we_error = None, we_search = [],
              we_query = [], we_pending = [], we_geo_requests = 0\<rparr>"

subsection \<open>\<open>fetchWeather\<close>\<close>

definition API_KEY :: string where
  "API_KEY = ''27bad8363ddda38a5d52da4072d2adc1''"

definition we_city_url :: "string \<Rightarrow> string" where
  "we_city_url city = ''https://api.openweathermap.org/data/2.5/weather?q='' @ city @
     ''&appid='' @ API_KEY @ ''&units=metric''"

text \<open>The synchronous part, up to \<open>await fetch(url)\<close>; \<open>if (city)\<close> is false for \<open>""\<close>.\<close>

definition we_fetch_start :: "string option \<Rightarrow> (real \<times> real) option \<Rightarrow> weather_state \<Rightarrow> weather_state" where
  "we_fetch_start city coords s =
     (let s1 = s\<lparr>we_loading := True, we_error := None\<rparr>
      in case city of
           Some c \<Rightarrow> if c \<noteq> [] then s1\<lparr>we_pending := we_pending s @ [ByCity c]\<rparr>
                     else (case coords of
                             Some (lat, lon) \<Rightarrow> s1\<lparr>we_pending := we_pending s @ [ByCoords lat lon]\<rparr>
                           | None \<Rightarrow> s1\<lparr>we_error := Some ''No location provided'', we_loading := False\<rparr>)
         | None \<Rightarrow>
             (case coords of
                Some (lat, lon) \<Rightarrow> s1\<lparr>we_pending := we_pending s @ [ByCoords lat lon]\<rparr>
              | None \<Rightarrow> s1\<lparr>we_error := Some ''No location provided'', we_loading := False\<rparr>))"

definition js_quote :: string where
  "js_quote = [CHR 0x27]"

text \<open>What V8 throws for \<open>data.weather[0].main\<close> on an empty \<open>weather\<close> array.\<close>

definition typeerror_weather0 :: string where
  "typeerror_weather0 = ''Cannot read properties of undefined (reading '' @ js_quote @ ''main'' @ js_quote @ '')''"

text \<open>The object literal built from \<open>data\<close>.\<close>

definition we_parse :: "owm_data \<Rightarrow> string + weather_data" where
  "we_parse d =
     (case owm_weather d of
        [] \<Rightarrow> Inl typeerror_weather0
      | (main, icon) # _ \<Rightarrow>
          Inr \<lparr>wd_location = owm_name d @ '', '' @ owm_country d,
               wd_temperature = js_round (owm_temp d),
               wd_condition = main,
               wd_humidity = owm_humidity d,
               wd_windSpeed = js_round (owm_wind_speed d),
               wd_icon = icon\<rparr>)"

text \<open>\<open>err?.message || "Failed to fetch weather data"\<close>.\<close>

definition js_error_message :: "string \<Rightarrow> string" where
  "js_error_message msg = (if msg = [] then ''Failed to fetch weather data'' else msg)"

definition http_ok :: "nat \<Rightarrow> bool" where
  "http_ok status \<longleftrightarrow> 200 \<le> status \<and> status \<le> 299"

text \<open>The part after \<open>await fetch(url)\<close>: the \<open>try\<close>/\<open>catch\<close> and the final \<open>setLoading(false)\<close>.\<close>

definition we_complete :: "http_outcome \<Rightarrow> weather_state \<Rightarrow> weather_state" where
  "we_complete outcome s =
     (case outcome of
        FetchRejected msg \<Rightarrow> s\<lparr>we_error := Some (js_error_message msg), we_loading := False\<rparr>
      | Response status statusText body json \<Rightarrow>
          (if \<not> http_ok status then
             s\<lparr>we_error := Some (''Failed to fetch weather: '' @ show_nat status @ '' '' @ statusText @
                                 '' - '' @ body),
               we_loading := False\<rparr>
           else (case json of
                   JsonError msg \<Rightarrow> s\<lparr>we_error := Some (js_error_message msg), we_loading := False\<rparr>
                 | JsonData d \<Rightarrow>
                     (case we_parse d of
                        Inl msg \<Rightarrow> s\<lparr>we_error := Some (js_error_message msg), we_loading := False\<rparr>
                      | Inr w \<Rightarrow> s\<lparr>we_weather := Some w, we_loading := False\<rparr>))))"

subsection \<open>The query effect and geolocation\<close>

definition fallback_city :: string where
  "fallback_city = ''Delhi''"

text \<open>
  The effect on \<open>[query]\<close>: a non-empty query is fetched; otherwise, with
  \<open>navigator.geolocation\<close>, a position is requested (its callback comes later), and
  without it the fallback city is fetched.
\<close>

definition we_query_effect :: "bool \<Rightarrow> weather_state \<Rightarrow> weather_state" where
  "we_query_effect hasGeolocation s =
     (if we_query s \<noteq> [] then we_fetch_start (Some (we_query s)) None s
      else if hasGeolocation then s\<lparr>we_geo_requests := Suc (we_geo_requests s)\<rparr>
      else we_fetch_start (Some fallback_city) None s)"

text \<open>The success callback (a position) and the error callback (\<open>None\<close>).\<close>

definition we_geo_callback :: "(real \<times> real) option \<Rightarrow> weather_state \<Rightarrow> weather_state" where
  "we_geo_callback pos s =
     (let s1 = s\<lparr>we_geo_requests := we_geo_requests s - 1\<rparr>
      in case pos of
           Some (lat, lon) \<Rightarrow> we_fetch_start None (Some (lat, lon)) s1
         | None \<Rightarrow> we_fetch_start (Some fallback_city) None s1)"

definition we_mount :: "bool \<Rightarrow> weather_state" where
  "we_mount hasGeolocation = we_query_effect hasGeolocation we_init"

subsection \<open>Rendering and events\<close>

datatype icon = IconImage string | SunIcon | CloudIcon | CloudRainIcon | CloudSnowIcon

definition we_getWeatherIcon :: "string \<Rightarrow> string \<Rightarrow> icon" where
  "we_getWeatherIcon ic condition =
     (if ic \<noteq> [] then IconImage (''https://openweathermap.org/img/wn/'' @ ic @ ''@4x.png'')
      else (let c = js_lower condition in
            if c = ''sunny'' \<or> c = ''clear'' then SunIcon
            else if c = ''partly cloudy'' \<or> c = ''cloudy'' then CloudIcon
            else if c = ''rainy'' \<or> c = ''rain'' then CloudRainIcon
            else if c = ''snowy'' \<or> c = ''snow'' then CloudSnowIcon
            else CloudIcon))"

text \<open>
  The three early returns of the component: the loading view, the error view (for a
  non-empty message), and the main view with the search form and, when there is one,
  the snapshot.
\<close>

datatype we_view = WvLoading | WvError string | WvMain string "weather_data option"

definition we_render :: "weather_state \<Rightarrow> we_view" where
  "we_render s =
     (if we_loading s then WvLoading
      else case we_error s of
             Some e \<Rightarrow> if e \<noteq> [] then WvError e else WvMain (we_search s) (we_weather s)
           | None \<Rightarrow> WvMain (we_search s) (we_weather s))"

definition we_form_shown :: "weather_state \<Rightarrow> bool" where
  "we_form_shown s \<longleftrightarrow> (case we_render s of WvMain _ _ \<Rightarrow> True | _ \<Rightarrow> False)"

text \<open>
  The snapshot the main view shows below the form: the location, the icon, the
  temperature followed by the unit text of the source, the condition, the humidity
  followed by \<open>%\<close> and the wind speed followed by \<open> km/h\<close>. The unit text is the three
  characters U+00C2, U+00B0 and \<open>C\<close>: the source file holds a degree sign encoded twice.
  The humidity is any JavaScript number and is kept as that number with its suffix.
\<close>

record we_panel =
  wp_location :: string
  wp_icon :: icon
  wp_temperature :: string
  wp_condition :: string
  wp_humidity :: "real \<times> string"
  wp_wind :: string

definition we_temp_unit :: string where
  "we_temp_unit = [CHR 0xC2, CHR 0xB0, CHR ''C'']"

definition we_panel :: "weather_data \<Rightarrow> we_panel" where
  "we_panel w =
     \<lparr>wp_location = wd_location w,
      wp_icon = we_getWeatherIcon (wd_icon w) (wd_condition w),
      wp_temperature = show_int (wd_temperature w) @ we_temp_unit,
      wp_condition = wd_condition w,
      wp_humidity = (wd_humidity w, ''%''),
      wp_wind = show_int (wd_windSpeed w) @ '' km/h''\<rparr>"

definition we_screen :: "weather_state \<Rightarrow> we_panel option" where
  "we_screen s = (case we_render s of WvMain _ (Some w) \<Rightarrow> Some (we_panel w) | _ \<Rightarrow> None)"

text \<open>
  Typing in the search box, submitting the form, a geolocation callback, and the
  settling of the \<open>i\<close>-th pending request. The form exists only in the main view.
  \<open>setQuery\<close> with an unchanged value does not re-run the effect.
\<close>

datatype we_event = WeInput string | WeSubmit | WeGeo "(real \<times> real) option" | WeRespond nat

definition we_submit :: "bool \<Rightarrow> weather_state \<Rightarrow> weather_state" where
  "we_submit hasGeolocation s =
     (let s1 = s\<lparr>we_query := we_search s\<rparr>
      in if we_search s = we_query s then s1 else we_query_effect hasGeolocation s1)"

fun we_step :: "bool \<Rightarrow> (request \<Rightarrow> http_outcome) \<Rightarrow> weather_state \<Rightarrow> we_event \<Rightarrow> weather_state" where
  "we_step g server s (WeInput v) = (if we_form_shown s then s\<lparr>we_search := v\<rparr> else s)"
| "we_step g server s WeSubmit = (if we_form_shown s then we_submit g s else s)"
| "we_step g server s (WeGeo pos) = (if 0 < we_geo_requests s then we_geo_callback pos s else s)"
| "we_step g server s (WeRespond i) =
     (if i < length (we_pending s)
      then we_complete (server (we_pending s ! i))
             (s\<lparr>we_pending := take i (we_pending s) @ drop (Suc i) (we_pending s)\<rparr>)
      else s)"

fun we_run :: "bool \<Rightarrow> (request \<Rightarrow> http_outcome) \<Rightarrow> weather_state \<Rightarrow> we_event list \<Rightarrow> weather_state" where
  "we_run g server s [] = s"
| "we_run g server s (e # es) = we_run g server (we_step g server s e) es"

subsection \<open>A mocked server\<close>

text \<open>
  Test fixtures, not code of the widget: an OpenWeather body for a place, and a server
  that answers every city request with that city and every coordinate request with
  Mumbai.
\<close>

definition demo_data :: "string \<Rightarrow> owm_data" where
  "demo_data name = \<lparr>owm_name = name, owm_country = ''IN'', owm_temp = 30, owm_humidity = 40,
                     owm_weather = [(''Clear'', ''01d'')], owm_wind_speed = 5\<rparr>"

definition demo_server :: "request \<Rightarrow> http_outcome" where
  "demo_server r = (case r of ByCity c \<Rightarrow> Response 200 ''OK'' [] (JsonData (demo_data c))
                      | ByCoords lat lon \<Rightarrow> Response 200 ''OK'' [] (JsonData (demo_data ''Mumbai'')))"

subsection \<open>Lemmas\<close>

lemmas we_ops = we_fetch_start_def we_complete_def we_query_effect_def we_geo_callback_def we_submit_def

lemma we_run_append [simp]: "we_run g server s (xs @ ys) = we_run g server (we_run g server s xs) ys"
  by (induction xs arbitrary: s) simp_all

lemma we_panel_temperature_reads: "parse_int (wp_temperature (we_panel w)) = Some (wd_temperature w)"
proof -
  have "\<not> is_digit (CHR 0xC2)" by (simp add: is_digit_def)
  then show ?thesis by (simp add: we_panel_def we_temp_unit_def parse_int_show_int)
qed

lemma we_render_error: "we_render s = WvError e \<Longrightarrow> \<not> we_form_shown s"
  by (simp add: we_form_shown_def)

lemma we_step_stuck:
  assumes "\<not> we_form_shown s" "we_pending s = []" "we_geo_requests s = 0"
  shows "we_step g server s e = s"
  using assms by (cases e) simp_all

lemma we_run_stuck:
  "\<not> we_form_shown s \<Longrightarrow> we_pending s = [] \<Longrightarrow> we_geo_requests s = 0 \<Longrightarrow> we_run g server s es = s"
  by (induction es) (simp_all add: we_step_stuck)

text \<open>The invariant of a panel on a device without geolocation: one request at a time.\<close>

definition we_single_flight :: "weather_state \<Rightarrow> bool" where
  "we_single_flight s \<longleftrightarrow>
     length (we_pending s) \<le> 1 \<and> we_geo_requests s = 0 \<and> (we_pending s \<noteq> [] \<longrightarrow> we_loading s)"

lemma we_single_flight_form: "we_single_flight s \<Longrightarrow> we_form_shown s \<Longrightarrow> we_pending s = []"
  by (auto simp: we_single_flight_def we_form_shown_def we_render_def)

lemma we_step_single_flight:
  assumes "we_single_flight s"
  shows "we_single_flight (we_step False server s e)"
proof (cases e)
  case (WeInput v)
  with assms show ?thesis by (simp add: we_single_flight_def)
next
  case WeSubmit
  show ?thesis
  proof (cases "we_form_shown s")
    case True
    with assms have "we_pending s = []" "we_geo_requests s = 0"
      by (auto simp: we_single_flight_form, simp add: we_single_flight_def)
    with assms WeSubmit True show ?thesis
      by (auto simp: we_single_flight_def we_submit_def we_query_effect_def we_fetch_start_def
          fallback_city_def Let_def)
  next
    case False
    with assms WeSubmit show ?thesis by simp
  qed
next
  case (WeGeo pos)
  with assms show ?thesis by (simp add: we_single_flight_def)
next
  case (WeRespond i)
  with assms show ?thesis
    by (cases "we_pending s") (auto simp: we_single_flight_def we_complete_def
        split: http_outcome.splits json_result.splits sum.splits)
qed

lemma we_run_single_flight: "we_single_flight s \<Longrightarrow> we_single_flight (we_run False server s es)"
  by (induction es arbitrary: s) (simp_all add: we_step_single_flight)

subsection \<open>Properties\<close>

text \<open>
  C27. A successful response (status 200 to 299) whose body has a \<open>weather\<close> entry
  replaces the display by the snapshot built from it: location \<open>name, country\<close>,
  temperature and wind rounded by \<open>Math.round\<close>, condition and icon of the first entry,
  humidity as reported. For Delhi at 30 degrees, 40 percent, wind 5, "Clear", "01d" this is
  the spec's expected snapshot.
\<close>

theorem we_ok_response_view:
  assumes "http_ok status" "owm_weather d = (main, ic) # rest" "we_error s = None"
  shows "we_render (we_complete (Response status statusText body (JsonData d)) s) =
           WvMain (we_search s)
             (Some \<lparr>wd_location = owm_name d @ '', '' @ owm_country d,
                    wd_temperature = js_round (owm_temp d), wd_condition = main,
                    wd_humidity = owm_humidity d, wd_windSpeed = js_round (owm_wind_speed d),
                    wd_icon = ic\<rparr>) \<and>
         (\<exists>P. we_screen (we_complete (Response status statusText body (JsonData d)) s) = Some P \<and>
              parse_int (wp_temperature P) = Some (js_round (owm_temp d)) \<and>
              wp_wind P = show_int (js_round (owm_wind_speed d)) @ '' km/h'' \<and>
              wp_icon P = we_getWeatherIcon ic main)"
proof -
  let ?w = "\<lparr>wd_location = owm_name d @ '', '' @ owm_country d,
                    wd_temperature = js_round (owm_temp d), wd_condition = main,
                    wd_humidity = owm_humidity d, wd_windSpeed = js_round (owm_wind_speed d),
                    wd_icon = ic\<rparr>"
  have r: "we_render (we_complete (Response status statusText body (JsonData d)) s) =
             WvMain (we_search s) (Some ?w)"
    using assms by (simp add: we_complete_def we_parse_def we_render_def)
  then have "we_screen (we_complete (Response status statusText body (JsonData d)) s) = Some (we_panel ?w)"
    by (simp add: we_screen_def)
  moreover have "parse_int (wp_temperature (we_panel ?w)) = Some (js_round (owm_temp d))"
    using we_panel_temperature_reads[of ?w] by simp
  ultimately show ?thesis using r by (simp add: we_panel_def)
qed

theorem we_ok_response_view_witness:
  "we_render (we_complete (Response 200 ''OK'' [] (JsonData (demo_data ''Delhi'')))
       (we_mount False)) =
     WvMain [] (Some \<lparr>wd_location = ''Delhi, IN'', wd_temperature = 30, wd_condition = ''Clear'',
                      wd_humidity = 40, wd_windSpeed = 5, wd_icon = ''01d''\<rparr>) \<and>
   we_screen (we_complete (Response 200 ''OK'' [] (JsonData (demo_data ''Delhi''))) (we_mount False)) =
     Some \<lparr>wp_location = ''Delhi, IN'', wp_icon = IconImage ''https://openweathermap.org/img/wn/01d@4x.png'',
           wp_temperature = ''30'' @ we_temp_unit, wp_condition = ''Clear'', wp_humidity = (40, ''%''),
           wp_wind = ''5 km/h''\<rparr>"
proof -
  have "http_ok 200" "owm_weather (demo_data ''Delhi'') = (''Clear'', ''01d'') # []"
    "we_error (we_mount False) = None"
    by (simp_all add: http_ok_def demo_data_def we_mount_def we_init_def we_ops Let_def fallback_city_def)
  from we_ok_response_view[OF this, of "''OK''" "[]"]
  have r: "we_render (we_complete (Response 200 ''OK'' [] (JsonData (demo_data ''Delhi'')))
       (we_mount False)) =
     WvMain [] (Some \<lparr>wd_location = ''Delhi, IN'', wd_temperature = 30, wd_condition = ''Clear'',
                      wd_humidity = 40, wd_windSpeed = 5, wd_icon = ''01d''\<rparr>)"
    by (simp add: demo_data_def we_mount_def we_init_def we_ops js_round_def Let_def fallback_city_def)
  moreover have "show_int 30 = ''30''" "show_int 5 = ''5''"
    by (simp_all add: show_int_def js_simps)
  ultimately show ?thesis
    by (simp add: we_screen_def we_panel_def we_getWeatherIcon_def)
qed

text \<open>
  C28. A response that is not \<open>ok\<close> shows the error view with the message
  \<open>Failed to fetch weather: <status> <statusText> - <body>\<close>, and no snapshot, whatever
  snapshot the state still holds from an earlier fetch.
\<close>

theorem we_http_error_view:
  assumes "\<not> http_ok status"
  shows "we_render (we_complete (Response status statusText body json) s) =
           WvError (''Failed to fetch weather: '' @ show_nat status @ '' '' @ statusText @ '' - '' @ body)"
  using assms by (simp add: we_complete_def we_render_def)

theorem we_http_error_view_witness:
  "we_render (we_complete (Response 404 ''Not Found'' ''city not found'' (JsonError []))
      ((we_mount False)\<lparr>we_weather := Some \<lparr>wd_location = ''Delhi, IN'', wd_temperature = 30,
         wd_condition = ''Clear'', wd_humidity = 40, wd_windSpeed = 5, wd_icon = ''01d''\<rparr>\<rparr>)) =
   WvError ''Failed to fetch weather: 404 Not Found - city not found''"
proof -
  have "\<not> http_ok 404" by (simp add: http_ok_def)
  from we_http_error_view[OF this] show ?thesis by (simp add: js_simps)
qed

text \<open>
  C29. The error view is final: it has no search form, so once every request has settled
  and no position is awaited, no sequence of user events leaves it; only a remount of the
  widget recovers.
\<close>

theorem we_error_sticks:
  assumes "we_render s = WvError e" "we_pending s = []" "we_geo_requests s = 0"
  shows "we_render (we_run g server s es) = WvError e"
  using assms we_run_stuck[OF we_render_error[OF assms(1)] assms(2,3)] by simp

theorem we_error_sticks_witness:
  "we_render (we_run False (\<lambda>r. Response 404 ''Not Found'' ''city not found'' (JsonError []))
      (we_mount False) [WeRespond 0, WeInput ''London'', WeSubmit, WeRespond 0]) =
   WvError ''Failed to fetch weather: 404 Not Found - city not found''"
proof -
  let ?srv = "\<lambda>r. Response 404 ''Not Found'' ''city not found'' (JsonError [])"
  let ?s = "we_run False ?srv (we_mount False) [WeRespond 0]"
  have s: "we_render ?s = WvError ''Failed to fetch weather: 404 Not Found - city not found''"
    "we_pending ?s = []" "we_geo_requests ?s = 0"
    by (simp_all add: we_mount_def we_init_def we_ops fallback_city_def http_ok_def we_render_def js_simps)
  from we_error_sticks[OF s, of False ?srv "[WeInput ''London'', WeSubmit, WeRespond 0]"] s(1)
  show ?thesis by simp
qed

text \<open>
  C30. The spec's open question has an answer in this code: stale responses are not
  guarded. From any main view with nothing in flight and a non-empty query, an empty
  search asks for the position without showing the loading view; a search for any city
  \<open>c\<close> submitted before the position arrives is fetched and shown; when the position
  arrives, its request is issued and its response replaces the result of \<open>c\<close>, while
  the search box and the query still say \<open>c\<close>. This holds for every server whose two
  responses are successful snapshots.
\<close>

theorem we_stale_geolocation_overwrites:
  assumes "\<not> we_loading s" "we_error s = None" "we_pending s = []" "we_geo_requests s = 0"
    "we_query s \<noteq> []" "c \<noteq> []"
    "server (ByCity c) = Response st1 txt1 body1 (JsonData d1)" "http_ok st1" "we_parse d1 = Inr w1"
    "server (ByCoords lat lon) = Response st2 txt2 body2 (JsonData d2)" "http_ok st2" "we_parse d2 = Inr w2"
  shows "we_render (we_run True server s [WeInput [], WeSubmit, WeInput c, WeSubmit, WeRespond 0]) =
           WvMain c (Some w1) \<and>
         we_query (we_run True server s [WeInput [], WeSubmit, WeInput c, WeSubmit, WeRespond 0,
                                          WeGeo (Some (lat, lon)), WeRespond 0]) = c \<and>
         we_render (we_run True server s [WeInput [], WeSubmit, WeInput c, WeSubmit, WeRespond 0,
                                           WeGeo (Some (lat, lon)), WeRespond 0]) = WvMain c (Some w2)"
  using assms by (simp add: we_ops we_render_def we_form_shown_def Let_def)

theorem we_stale_geolocation_overwrites_witness:
  "we_render (we_run True demo_server \<lparr>we_weather = None, we_loading = False, we_error = None, we_search = ''Paris'', we_query = ''Paris'', we_pending = [], we_geo_requests = 0\<rparr> [WeInput [], WeSubmit, WeInput ''London'', WeSubmit, WeRespond 0]) =
     WvMain ''London'' (Some \<lparr>wd_location = ''London, IN'', wd_temperature = 30, wd_condition = ''Clear'', wd_humidity = 40, wd_windSpeed = 5, wd_icon = ''01d''\<rparr>) \<and>
   we_query (we_run True demo_server \<lparr>we_weather = None, we_loading = False, we_error = None, we_search = ''Paris'', we_query = ''Paris'', we_pending = [], we_geo_requests = 0\<rparr> [WeInput [], WeSubmit, WeInput ''London'', WeSubmit, WeRespond 0,
       WeGeo (Some (19, 72)), WeRespond 0]) = ''London'' \<and>
   we_render (we_run True demo_server \<lparr>we_weather = None, we_loading = False, we_error = None, we_search = ''Paris'', we_query = ''Paris'', we_pending = [], we_geo_requests = 0\<rparr> [WeInput [], WeSubmit, WeInput ''London'', WeSubmit, WeRespond 0,
       WeGeo (Some (19, 72)), WeRespond 0]) = WvMain ''London'' (Some \<lparr>wd_location = ''Mumbai, IN'', wd_temperature = 30, wd_condition = ''Clear'', wd_humidity = 40, wd_windSpeed = 5, wd_icon = ''01d''\<rparr>)"
proof (rule we_stale_geolocation_overwrites)
  show "demo_server (ByCity ''London'') = Response 200 ''OK'' [] (JsonData (demo_data ''London''))"
    "demo_server (ByCoords 19 72) = Response 200 ''OK'' [] (JsonData (demo_data ''Mumbai''))"
    by (simp_all add: demo_server_def)
  show "we_parse (demo_data ''London'') = Inr \<lparr>wd_location = ''London, IN'', wd_temperature = 30, wd_condition = ''Clear'', wd_humidity = 40, wd_windSpeed = 5, wd_icon = ''01d''\<rparr>" "we_parse (demo_data ''Mumbai'') = Inr \<lparr>wd_location = ''Mumbai, IN'', wd_temperature = 30, wd_condition = ''Clear'', wd_humidity = 40, wd_windSpeed = 5, wd_icon = ''01d''\<rparr>"
    by (simp_all add: we_parse_def demo_data_def js_round_def)
qed (simp_all add: http_ok_def)

text \<open>
  C31. Without geolocation the race cannot happen: in every state reached from mount, at
  most one request is in flight, no position is awaited, and while a request is in flight
  the loading view hides the search form.
\<close>

theorem we_no_geo_single_flight: "we_single_flight (we_run False server (we_mount False) es)"
proof (rule we_run_single_flight)
  show "we_single_flight (we_mount False)"
    by (simp add: we_single_flight_def we_mount_def we_init_def we_ops fallback_city_def)
qed

theorem we_no_geo_single_flight_witness:
  "we_single_flight (we_run False demo_server (we_mount False)
     [WeRespond 0, WeInput ''Paris'', WeSubmit, WeInput ''London'', WeSubmit, WeRespond 0])"
  by (rule we_no_geo_single_flight)

text \<open>
  C32. Submitting the search that is already the current query does nothing: no request is
  issued, so a shown result cannot be refreshed by searching again.
\<close>

theorem we_resubmit_noop:
  assumes "we_form_shown s" "we_search s = we_query s"
  shows "we_step g server s WeSubmit = s"
  using assms by (simp add: we_submit_def)

theorem we_resubmit_noop_witness:
  "we_step False demo_server (we_run False demo_server (we_mount False) [WeRespond 0]) WeSubmit =
   we_run False demo_server (we_mount False) [WeRespond 0]"
proof -
  let ?s = "we_run False demo_server (we_mount False) [WeRespond 0]"
  have "we_form_shown ?s" "we_search ?s = we_query ?s"
    by (simp_all add: we_mount_def we_init_def we_ops fallback_city_def demo_server_def demo_data_def
        we_parse_def http_ok_def we_form_shown_def we_render_def)
  from we_resubmit_noop[OF this] show ?thesis .
qed

text \<open>
  C33. The displayed temperature and wind speed are within half a unit of the reported
  values (\<open>Math.round\<close>, halves rounded up).
\<close>

theorem we_rounding_bounds:
  assumes "we_parse d = Inr w"
  shows "\<bar>of_int (wd_temperature w) - owm_temp d\<bar> \<le> 1 / 2 \<and>
         \<bar>of_int (wd_windSpeed w) - owm_wind_speed d\<bar> \<le> 1 / 2"
proof -
  from assms have "wd_temperature w = js_round (owm_temp d)" "wd_windSpeed w = js_round (owm_wind_speed d)"
    by (auto simp: we_parse_def split: list.splits)
  then show ?thesis using js_round_dist[of "owm_temp d"] js_round_dist[of "owm_wind_speed d"] by simp
qed

theorem we_rounding_bounds_witness:
  "\<bar>of_int (wd_temperature (projr (we_parse ((demo_data ''Delhi'')\<lparr>owm_temp := 29.5\<rparr>)))) - (29.5::real)\<bar> \<le> 1 / 2"
proof -
  have "we_parse ((demo_data ''Delhi'')\<lparr>owm_temp := 29.5\<rparr>) =
        Inr (projr (we_parse ((demo_data ''Delhi'')\<lparr>owm_temp := 29.5\<rparr>)))"
    by (simp add: we_parse_def demo_data_def)
  from we_rounding_bounds[OF this] show ?thesis by simp
qed

end
