(* ===== verification/App.thy ===== *)
theory App
  imports Timer Stopwatch Alarm Orientation Weather
begin

text \<open>
  How the components are put together. \<open>OrientationApp.tsx\<close> renders the element
  \<open>renderCurrentView()\<close> returns at one position of the tree: when the orientation maps
  to another widget, React unmounts the old component, dropping its state and clearing its
  intervals, and mounts the new one from its initial state; setting the same orientation
  keeps the mounted component. The mounted widget is a value of \<open>widget\<close>, one
  constructor per component, and \<open>app_step\<close> routes each event either to the
  orientation detector or to the widget it is meant for.
\<close>

subsection \<open>The mounted widget\<close>

datatype widget = WAlarm alarm | WStopwatch stopwatch | WTimer timer | WWeather weather_state

fun widget_view :: "widget \<Rightarrow> view" where
  "widget_view (WAlarm _) = AlarmView"
| "widget_view (WStopwatch _) = StopwatchView"
| "widget_view (WTimer _) = TimerView"
| "widget_view (WWeather _) = WeatherView"

text \<open>The environment a run takes as given: notification permission, geolocation, the server.\<close>

record app_ctx =
  ctx_perm :: notif_perm
  ctx_geolocation :: bool
  ctx_server :: "request \<Rightarrow> http_outcome"

text \<open>A fresh component and what its mount effects do.\<close>

fun mount_widget :: "app_ctx \<Rightarrow> ms \<Rightarrow> view \<Rightarrow> widget \<times> al_effect list" where
  "mount_widget ctx now AlarmView = (WAlarm (al_init now), al_mount_effects (ctx_perm ctx))"
| "mount_widget ctx now StopwatchView = (WStopwatch sw_init, [])"
| "mount_widget ctx now TimerView = (WTimer tm_init, [])"
| "mount_widget ctx now WeatherView = (WWeather (we_mount (ctx_geolocation ctx)), [])"

record app =
  app_or :: orientation_app
  app_widget :: widget

definition app_mount :: "app_ctx \<Rightarrow> ms \<Rightarrow> window_env \<Rightarrow> bool \<Rightarrow> app \<times> al_effect list" where
  "app_mount ctx now env hasRequestPermission =
     (let ors = or_mount now env hasRequestPermission;
          (w, out) = mount_widget ctx now (or_renderCurrentView (or_orientation ors))
      in (\<lparr>app_or = ors, app_widget = w\<rparr>, out))"

datatype app_event =
    AppOr ms or_event
  | AppAlarm al_event
  | AppStopwatch sw_event
  | AppTimer tm_event
  | AppWeather we_event

text \<open>
  A widget's event reaches it only while it is mounted; an event for another widget is
  dropped: that widget's controls are not rendered, and its intervals were cleared by the
  cleanups its effects return on unmount (\<open>AlarmClock.tsx\<close> lines 15 and 39,
  \<open>Stopwatch.tsx\<close> 22-26, \<open>Timer.tsx\<close> 30-34).
\<close>

fun widget_step :: "app_ctx \<Rightarrow> widget \<Rightarrow> app_event \<Rightarrow> widget \<times> al_effect list" where
  "widget_step ctx (WAlarm a) (AppAlarm e) = (let (a', out) = al_step (ctx_perm ctx) a e in (WAlarm a', out))"
| "widget_step ctx (WStopwatch w) (AppStopwatch e) = (WStopwatch (sw_step w e), [])"
| "widget_step ctx (WTimer t) (AppTimer e) = (WTimer (tm_step t e), [])"
| "widget_step ctx (WWeather w) (AppWeather e) =
     (WWeather (we_step (ctx_geolocation ctx) (ctx_server ctx) w e), [])"
| "widget_step ctx w _ = (w, [])"

text \<open>
  An orientation event that changes the selected widget remounts; any other event goes to
  the mounted widget.
\<close>

fun app_step :: "app_ctx \<Rightarrow> app \<Rightarrow> app_event \<Rightarrow> app \<times> al_effect list" where
  "app_step ctx s (AppOr now e) =
     (let ors = or_step (app_or s) e; v = or_renderCurrentView (or_orientation ors)
      in if v = widget_view (app_widget s) then (s\<lparr>app_or := ors\<rparr>, [])
         else (let (w, out) = mount_widget ctx now v in (\<lparr>app_or = ors, app_widget = w\<rparr>, out)))"
| "app_step ctx s e = (let (w, out) = widget_step ctx (app_widget s) e in (s\<lparr>app_widget := w\<rparr>, out))"

fun app_run :: "app_ctx \<Rightarrow> app \<Rightarrow> app_event list \<Rightarrow> app" where
  "app_run ctx s [] = s"
| "app_run ctx s (e # es) = app_run ctx (fst (app_step ctx s e)) es"

subsection \<open>Lemmas\<close>

lemma widget_view_mount [simp]: "widget_view (fst (mount_widget ctx now v)) = v"
  by (cases v) simp_all

lemma app_step_or:
  "or_orientation (app_or (fst (app_step ctx s (AppOr now e)))) = or_orientation (or_step (app_or s) e) \<and>
   widget_view (app_widget (fst (app_step ctx s (AppOr now e)))) =
     or_renderCurrentView (or_orientation (or_step (app_or s) e))"
  by (simp add: Let_def split_def)

lemma app_demo_remount:
  assumes "or_renderCurrentView ty \<noteq> widget_view (app_widget s)"
  shows "app_widget (fst (app_step ctx s (AppOr now (OrDemo ty)))) =
           fst (mount_widget ctx now (or_renderCurrentView ty))"
  using assms by (simp add: Let_def split_def)

subsection \<open>Properties\<close>

text \<open>
  C34. Leaving a widget discards its state: after switching to an orientation with another
  widget and back, the widget is freshly mounted, so a running timer or stopwatch is reset
  and an armed alarm is disarmed.
\<close>

theorem app_leave_and_return_fresh:
  assumes "or_renderCurrentView ty1 \<noteq> or_renderCurrentView ty0"
  shows "app_widget (app_run ctx s [AppOr t1 (OrDemo ty1), AppOr t2 (OrDemo ty0)]) =
           fst (mount_widget ctx t2 (or_renderCurrentView ty0))"
proof -
  let ?s1 = "fst (app_step ctx s (AppOr t1 (OrDemo ty1)))"
  have "widget_view (app_widget ?s1) = or_renderCurrentView ty1"
    using app_step_or[of ctx s t1 "OrDemo ty1"] by simp
  with assms have "or_renderCurrentView ty0 \<noteq> widget_view (app_widget ?s1)" by simp
  from app_demo_remount[OF this] show ?thesis by simp
qed

theorem app_leave_and_return_fresh_witness:
  "app_widget (app_run \<lparr>ctx_perm = PermGranted, ctx_geolocation = False, ctx_server = demo_server\<rparr>
      \<lparr>app_or = \<lparr>or_orientation = PortraitSecondary, or_isTransitioning = False, or_tiltListener = True,
                 or_timeouts = []\<rparr>,
       app_widget = WTimer (tm_init\<lparr>tm_isRunning := True, tm_timeLeft := 120000\<rparr>)\<rparr>
      [AppOr 5000 (OrDemo LandscapePrimary), AppOr 6000 (OrDemo PortraitSecondary)]) = WTimer tm_init"
proof -
  have "or_renderCurrentView LandscapePrimary \<noteq> or_renderCurrentView PortraitSecondary" by simp
  from app_leave_and_return_fresh[OF this] show ?thesis by simp
qed


end
