(* ===== verification/Router.thy ===== *)
theory Router
  imports App
begin

text \<open>
  Navigation, \<open>src/src/App.tsx\<close>: the links of \<open>navLinks\<close> and the \<open>Routes\<close> of the
  \<open>BrowserRouter\<close>. The router's state is the location's path, the browser history
  around it (entries before, most recent first, and entries after) and the page
  component \<open>Routes\<close> renders for the location, with its state when it is a widget.
  React keeps the rendered component while the matched route stays the same and mounts
  the new route's component from its initial state otherwise; reloading the page or
  opening a URL loads a fresh document, which mounts everything anew.
\<close>

subsection \<open>Routes\<close>

datatype page = IndexPage | AlarmPage | StopwatchPage | TimerPage | WeatherPage | NotFoundPage

definition navLinks :: "(string \<times> string) list" where
  "navLinks = [(''Alarm'', ''/alarm''), (''Stopwatch'', ''/stopwatch''), (''Timer'', ''/timer''),
               (''Weather'', ''/weather'')]"

text \<open>
  React Router v6 compiles a route path \<open>pat\<close> into the regular expression
  \<open>^pat\/*$\<close> with the flag \<open>i\<close>: the location's path matches when, ignoring
  ASCII letter case, it is \<open>pat\<close> followed by any number of slashes (for \<open>/\<close>, a path of
  slashes only). \<open>route_match pat q\<close> is that test on the lower-cased path \<open>q\<close>.
  Percent-decoding of the path before matching is not modelled.
\<close>

definition route_match :: "string \<Rightarrow> string \<Rightarrow> bool" where
  "route_match pat q \<longleftrightarrow>
     take (length pat) q = pat \<and> list_all (\<lambda>c. c = CHR ''/'') (drop (length pat) q)"

text \<open>The route table of \<open>App.tsx\<close>; \<open>*\<close> catches every other path.\<close>

definition app_route :: "string \<Rightarrow> page" where
  "app_route p =
     (let q = js_lower p in
      if route_match ''/'' q then IndexPage
      else if route_match ''/alarm'' q then AlarmPage
      else if route_match ''/stopwatch'' q then StopwatchPage
      else if route_match ''/timer'' q then TimerPage
      else if route_match ''/weather'' q then WeatherPage
      else NotFoundPage)"

text \<open>The page each link's label names (the expectation the routes are checked against).\<close>

fun page_of_link :: "string \<Rightarrow> page" where
  "page_of_link name =
     (if name = ''Alarm'' then AlarmPage else if name = ''Stopwatch'' then StopwatchPage
      else if name = ''Timer'' then TimerPage else if name = ''Weather'' then WeatherPage
      else NotFoundPage)"

subsection \<open>The rendered page\<close>

text \<open>
  The element of each route: the four widgets, and the \<open>Index\<close> and \<open>NotFound\<close> pages,
  whose sources are not in the repository and which are taken as stateless here.
\<close>

fun page_view :: "page \<Rightarrow> view option" where
  "page_view AlarmPage = Some AlarmView"
| "page_view StopwatchPage = Some StopwatchView"
| "page_view TimerPage = Some TimerView"
| "page_view WeatherPage = Some WeatherView"
| "page_view _ = None"

datatype mounted = MIndex | MNotFound | MWidget widget

definition mount_page :: "app_ctx \<Rightarrow> ms \<Rightarrow> page \<Rightarrow> mounted \<times> al_effect list" where
  "mount_page ctx now p =
     (case page_view p of
        Some v \<Rightarrow> (let (w, out) = mount_widget ctx now v in (MWidget w, out))
      | None \<Rightarrow> (if p = IndexPage then MIndex else MNotFound, []))"

text \<open>Whether a rendered component is the element of a route.\<close>

fun shows_page :: "page \<Rightarrow> mounted \<Rightarrow> bool" where
  "shows_page p MIndex \<longleftrightarrow> p = IndexPage"
| "shows_page p MNotFound \<longleftrightarrow> p = NotFoundPage"
| "shows_page p (MWidget w) \<longleftrightarrow> page_view p = Some (widget_view w)"

subsection \<open>History and navigation\<close>

record router =
  rt_location :: string
  rt_back :: "string list"
  rt_fwd :: "string list"
  rt_page :: mounted

text \<open>Re-rendering \<open>Routes\<close> after the location changed within the document.\<close>

definition rt_render :: "app_ctx \<Rightarrow> ms \<Rightarrow> router \<Rightarrow> router \<times> al_effect list" where
  "rt_render ctx now s =
     (let p = app_route (rt_location s)
      in if shows_page p (rt_page s) then (s, [])
         else (let (m, out) = mount_page ctx now p in (s\<lparr>rt_page := m\<rparr>, out)))"

text \<open>Loading a document at a path, with the history entries before it.\<close>

definition rt_load :: "app_ctx \<Rightarrow> ms \<Rightarrow> string \<Rightarrow> string list \<Rightarrow> router \<times> al_effect list" where
  "rt_load ctx now path back =
     (let (m, out) = mount_page ctx now (app_route path)
      in (\<lparr>rt_location = path, rt_back = back, rt_fwd = [], rt_page = m\<rparr>, out))"

text \<open>
  A click on a \<open>Link\<close> pushes its path, except that React Router replaces the entry
  when the link points at the current location; Back and Forward move in the history
  (with no entry to move to, the browser leaves the application, which is outside the
  model); a reload or a typed URL loads a fresh document; a widget's event reaches the
  rendered widget.
\<close>

datatype rt_event = RtLink string | RtBack | RtForward | RtReload | RtOpen string | RtWidget app_event

fun rt_step :: "app_ctx \<Rightarrow> ms \<Rightarrow> router \<Rightarrow> rt_event \<Rightarrow> router \<times> al_effect list" where
  "rt_step ctx now s (RtLink p) =
     (if p = rt_location s then (s, [])
      else rt_render ctx now (s\<lparr>rt_location := p, rt_back := rt_location s # rt_back s, rt_fwd := []\<rparr>))"
| "rt_step ctx now s RtBack =
     (case rt_back s of
        [] \<Rightarrow> (s, [])
      | q # qs \<Rightarrow> rt_render ctx now (s\<lparr>rt_location := q, rt_back := qs, rt_fwd := rt_location s # rt_fwd s\<rparr>))"
| "rt_step ctx now s RtForward =
     (case rt_fwd s of
        [] \<Rightarrow> (s, [])
      | q # qs \<Rightarrow> rt_render ctx now (s\<lparr>rt_location := q, rt_back := rt_location s # rt_back s, rt_fwd := qs\<rparr>))"
| "rt_step ctx now s RtReload =
     (let (m, out) = mount_page ctx now (app_route (rt_location s)) in (s\<lparr>rt_page := m\<rparr>, out))"
| "rt_step ctx now s (RtOpen p) = rt_load ctx now p (rt_location s # rt_back s)"
| "rt_step ctx now s (RtWidget e) =
     (case rt_page s of
        MWidget w \<Rightarrow> (let (w', out) = widget_step ctx w e in (s\<lparr>rt_page := MWidget w'\<rparr>, out))
      | _ \<Rightarrow> (s, []))"

fun rt_run :: "app_ctx \<Rightarrow> router \<Rightarrow> (ms \<times> rt_event) list \<Rightarrow> router" where
  "rt_run ctx s [] = s"
| "rt_run ctx s ((now, e) # es) = rt_run ctx (fst (rt_step ctx now s e)) es"

subsection \<open>Lemmas\<close>

lemma route_match_slashes: "route_match pat q \<longleftrightarrow> (\<exists>k. q = pat @ replicate k (CHR ''/''))"
proof
  assume m: "route_match pat q"
  then have "\<forall>c\<in>set (drop (length pat) q). c = CHR ''/''" by (simp add: route_match_def list_all_iff)
  then have d: "replicate (length (drop (length pat) q)) (CHR ''/'') = drop (length pat) q"
    by (rule replicate_length_same)
  from m have t: "take (length pat) q = pat" by (simp add: route_match_def)
  have "q = pat @ replicate (length (drop (length pat) q)) (CHR ''/'')"
    using append_take_drop_id[of "length pat" q] t d by simp
  then show "\<exists>k. q = pat @ replicate k (CHR ''/'')" by blast
next
  assume "\<exists>k. q = pat @ replicate k (CHR ''/'')"
  then show "route_match pat q" by (auto simp: route_match_def list_all_iff)
qed

lemma replicate_eq_ConsD: "replicate n x = y # ys \<Longrightarrow> y = x"
  by (cases n) auto

lemma app_route_pages:
  "app_route p = AlarmPage \<longleftrightarrow> (\<exists>k. js_lower p = ''/alarm'' @ replicate k (CHR ''/''))"
  "app_route p = StopwatchPage \<longleftrightarrow> (\<exists>k. js_lower p = ''/stopwatch'' @ replicate k (CHR ''/''))"
  "app_route p = TimerPage \<longleftrightarrow> (\<exists>k. js_lower p = ''/timer'' @ replicate k (CHR ''/''))"
  "app_route p = WeatherPage \<longleftrightarrow> (\<exists>k. js_lower p = ''/weather'' @ replicate k (CHR ''/''))"
  by (auto simp: app_route_def Let_def route_match_slashes Cons_replicate_eq split: if_splits
      dest: replicate_eq_ConsD)

lemma shows_mount_page [simp]: "shows_page p (fst (mount_page ctx now p))"
  by (cases p) (simp_all add: mount_page_def split_def)

lemma shows_page_unique: "shows_page p m \<Longrightarrow> shows_page q m \<Longrightarrow> p = q"
  by (cases m; cases p; cases q) simp_all

lemma rt_render_fields [simp]:
  "rt_location (fst (rt_render ctx now s)) = rt_location s"
  "rt_back (fst (rt_render ctx now s)) = rt_back s"
  "rt_fwd (fst (rt_render ctx now s)) = rt_fwd s"
  "rt_location s = l \<Longrightarrow> shows_page (app_route l) (rt_page (fst (rt_render ctx now s)))"
  by (auto simp: rt_render_def Let_def split_def)

lemma rt_render_remount:
  "\<not> shows_page (app_route (rt_location s)) (rt_page s) \<Longrightarrow>
     rt_page (fst (rt_render ctx now s)) = fst (mount_page ctx now (app_route (rt_location s)))"
  by (simp add: rt_render_def Let_def split_def)

subsection \<open>Properties\<close>

text \<open>
  C26. Following a link to the page already shown changes nothing, so the widget keeps
  its state; following a link to another page and pressing Back returns to the location
  and history before the click, with the widget mounted afresh: a running timer is reset,
  an armed alarm disarmed.
\<close>

theorem rt_link_and_back:
  assumes "page_view (app_route (rt_location s)) = Some v" "app_route p \<noteq> app_route (rt_location s)"
  shows "fst (rt_step ctx t_keep s (RtLink (rt_location s))) = s \<and>
         rt_location (rt_run ctx s [(t_link, RtLink p), (t_back, RtBack)]) = rt_location s \<and>
         rt_back (rt_run ctx s [(t_link, RtLink p), (t_back, RtBack)]) = rt_back s \<and>
         rt_fwd (rt_run ctx s [(t_link, RtLink p), (t_back, RtBack)]) = [p] \<and>
         rt_page (rt_run ctx s [(t_link, RtLink p), (t_back, RtBack)]) = MWidget (fst (mount_widget ctx t_back v))"
proof -
  have ne: "p \<noteq> rt_location s" using assms(2) by auto
  let ?s1 = "fst (rt_step ctx t_link s (RtLink p))"
  have s1: "rt_location ?s1 = p" "rt_back ?s1 = rt_location s # rt_back s" "rt_fwd ?s1 = []"
    "shows_page (app_route p) (rt_page ?s1)"
    using ne by simp_all
  have "\<not> shows_page (app_route (rt_location s)) (rt_page ?s1)"
    using s1(4) assms(2) shows_page_unique by blast
  then have "rt_page (fst (rt_step ctx t_back ?s1 RtBack)) = fst (mount_page ctx t_back (app_route (rt_location s)))"
    using s1 rt_render_remount[of "?s1\<lparr>rt_location := rt_location s, rt_back := rt_back s, rt_fwd := [p]\<rparr>"]
    by simp
  with s1 assms(1) show ?thesis by (simp add: mount_page_def split_def Let_def)
qed

theorem rt_link_and_back_witness:
  "rt_page (rt_run \<lparr>ctx_perm = PermGranted, ctx_geolocation = False, ctx_server = demo_server\<rparr>
      \<lparr>rt_location = ''/timer'', rt_back = [], rt_fwd = [],
       rt_page = MWidget (WTimer (tm_init\<lparr>tm_isRunning := True, tm_timeLeft := 120000\<rparr>))\<rparr>
      [(5000, RtLink ''/alarm''), (6000, RtBack)]) = MWidget (WTimer tm_init)"
proof -
  have "page_view (app_route (rt_location \<lparr>rt_location = ''/timer'', rt_back = [], rt_fwd = [],
       rt_page = MWidget (WTimer (tm_init\<lparr>tm_isRunning := True, tm_timeLeft := 120000\<rparr>))\<rparr>)) = Some TimerView"
    "app_route ''/alarm'' \<noteq> app_route (rt_location \<lparr>rt_location = ''/timer'', rt_back = [], rt_fwd = [],
       rt_page = MWidget (WTimer (tm_init\<lparr>tm_isRunning := True, tm_timeLeft := 120000\<rparr>))\<rparr>)"
    by (simp_all add: app_route_def route_match_def js_lower_def js_lower_char_def)
  from rt_link_and_back[OF this, where ctx = "\<lparr>ctx_perm = PermGranted, ctx_geolocation = False,
      ctx_server = demo_server\<rparr>" and t_keep = 0 and t_link = 5000 and t_back = 6000]
  show ?thesis by simp
qed

text \<open>
  C35. Each navigation link leads to the page its label names, and that page is reached by
  exactly the paths that equal the link's path up to ASCII letter case and trailing
  slashes: \<open>/Timer//\<close> shows the timer, \<open>/timers\<close> and \<open>//timer\<close> do not.
\<close>

theorem app_routes:
  assumes "(name, path) \<in> set navLinks"
  shows "app_route p = page_of_link name \<longleftrightarrow> (\<exists>k. js_lower p = path @ replicate k (CHR ''/''))"
proof -
  from assms have "(name, path) = (''Alarm'', ''/alarm'') \<or> (name, path) = (''Stopwatch'', ''/stopwatch'') \<or>
      (name, path) = (''Timer'', ''/timer'') \<or> (name, path) = (''Weather'', ''/weather'')"
    by (simp add: navLinks_def)
  then show ?thesis by (elim disjE) (simp_all add: app_route_pages)
qed

theorem app_routes_witness: "app_route ''/Timer//'' = page_of_link ''Timer''"
proof -
  have "(''Timer'', ''/timer'') \<in> set navLinks" by (simp add: navLinks_def)
  moreover have "js_lower ''/Timer//'' = ''/timer//''"
    by (simp add: js_lower_def js_lower_char_def char_of_def bit_0)
  then have "js_lower ''/Timer//'' = ''/timer'' @ replicate 2 (CHR ''/'')"
    by (simp add: numeral_2_eq_2)
  ultimately show ?thesis using app_routes by blast
qed

end
