(* ===== verification/Spec2Isabelle.thy ===== *)
theory Spec2Isabelle
  imports Router
begin

text \<open>
  \<^bold>\<open>A verification library for the orientation clock (TechGigHackathon-clock).\<close>

  The program is a single-page React application (\<open>src/src\<close>) with four widgets, each a
  self-contained component with its own state and timers: an alarm clock
  (\<open>components/features/AlarmClock.tsx\<close>), a stopwatch (\<open>Stopwatch.tsx\<close>), a countdown
  timer (\<open>Timer.tsx\<close>) and a weather panel (\<open>Weather.tsx\<close>). \<open>OrientationApp.tsx\<close>
  chooses the widget from the device orientation and mounts exactly one of them;
  \<open>App.tsx\<close> also routes \<open>/alarm\<close>, \<open>/stopwatch\<close>, \<open>/timer\<close> and \<open>/weather\<close> to
  them. Widgets never talk to each other.

  \<^bold>\<open>How the code is modelled.\<close> Each widget's \<open>useState\<close> variables form a \<^theory_text>\<open>record\<close>;
  each handler and each interval callback is one \<^theory_text>\<open>definition\<close> from state to state,
  keeping the guards of the code (\<open>if (isRunning)\<close>, \<open>if (!isRunning)\<close>,
  \<open>if (isFinished)\<close>); a \<^theory_text>\<open>datatype\<close> of events (interval ticks and button presses) and
  a step function compose them with the rendering conditions that decide which buttons
  exist; a run folds the step over a list of events, so any interleaving of ticks and
  user actions is a list. React's batching of the updates inside one handler is taken as
  atomic, which is what the code relies on. A JavaScript number is \<open>int\<close> where it is
  decremented or adjusted (Timer), \<open>nat\<close> where it only grows or is a clock reading
  (Stopwatch, Alarm, the fade deadlines) and \<open>real\<close> for sensor angles and weather values; none of them
  comes near \<open>2^53\<close>, so no wrap-around is modelled.

  \<^bold>\<open>Theories.\<close>
  \<^item> \<open>Prelude\<close>: the JavaScript built-ins the widgets call (\<open>toString\<close>, \<open>padStart\<close>,
    \<open>parseInt\<close>, \<open>split\<close>, \<open>Math.round\<close>) and their lemmas, in particular that
    \<open>parseInt\<close> reads back a zero-padded decimal.
  \<^item> \<open>Timer\<close>: \<open>Timer.tsx\<close>: record \<open>timer\<close>, \<open>tm_tick\<close> (the 1 s interval),
    \<open>tm_handleStartPause\<close>, \<open>tm_handleReset\<close>, \<open>tm_adjustTime\<close>, \<open>tm_getProgress\<close>,
    \<open>tm_formatTime\<close>, events \<open>tm_event\<close>, \<open>tm_step\<close>, \<open>tm_run\<close>, the rendered
    screen \<open>tm_render\<close> (display, progress ring, minutes label, icon, banner) and the
    interval effect as a loop \<open>tm_interval\<close>. Invariant \<open>tm_inv\<close> (C1), exact countdown
    and single finish (C2), monotone remaining time (C3), bounds of the progress ring and
    consistency of the banner (C4), the + button (C5), restart after finish (C6), display
    read-back (C7), termination of the interval loop (C36).
  \<^item> \<open>Stopwatch\<close>: \<open>Stopwatch.tsx\<close>: record \<open>stopwatch\<close>, \<open>sw_tick\<close> (the 10 ms
    interval), \<open>sw_handleStartPause\<close>, \<open>sw_handleReset\<close>, \<open>sw_handleLap\<close>,
    \<open>sw_formatTime\<close>, \<open>sw_lap_rows\<close>, \<open>sw_step\<close>, \<open>sw_run\<close>, the rendered screen
    \<open>sw_render\<close>. Invariant \<open>sw_inv\<close> (C8), monotone clock (C9), lap persistence (C10),
    display read-back (C11), exact ticks (C12), every screen well formed: \<open>mm:ss.cc\<close>
    displays, lap panel only with laps, labels from \<open>laps.length\<close> down to 1 (C13).

  \<^item> \<open>Alarm\<close>: \<open>AlarmClock.tsx\<close>: \<open>get_hours\<close>, \<open>get_minutes\<close>,
    \<open>get_seconds\<close> (a \<open>Date\<close> as local milliseconds), \<open>time_input_value\<close> (the
    \<open>HH:MM\<close> of \<open><input type="time">\<close>), record \<open>alarm\<close>, \<open>al_clock_tick\<close>,
    \<open>al_matches\<close> and \<open>al_check\<close> (the 1 s check, returning its effects
    \<open>al_effect\<close>: sound, notification, permission request), \<open>al_mount_effects\<close>,
    \<open>al_onChange\<close>, \<open>al_onSet\<close>, \<open>al_onCancel\<close>, \<open>al_step\<close> with the
    \<open>disabled\<close> conditions, \<open>al_run\<close> collecting the effects, \<open>al_status\<close>.
    Firing at the target second (C14), at most once per arming (C15), whenever the checks
    are at most 1 s apart (C16) and only on a match (C17); that bound is tight, since for
    every larger bound some checks miss the target second (C18);
    reading of the input value (C19); invariant (C20).
  \<^item> \<open>Orientation\<close>: \<open>OrientationApp.tsx\<close>: \<open>orientation_type\<close>, the
    environment \<open>window_env\<close>, record \<open>orientation_app\<close> (with the installed tilt
    listener and the pending 300 ms timeouts), \<open>or_handleOrientationChange\<close>,
    \<open>or_tilt_orientation\<close>, \<open>or_handleDeviceOrientation\<close>,
    \<open>or_permission_resolved\<close>, \<open>or_timeout_fires\<close>, \<open>or_mount\<close>, \<open>or_step\<close>
    (window events and demo buttons), \<open>or_renderCurrentView\<close>,
    \<open>or_getBackgroundClass\<close>. The size fallback (C21), two views without sensors (C22),
    four views from the Screen Orientation API (C23), every fade ends (C24), readings fade
    without a change (C25); lemmas give the tilt thresholds (\<open>or_tilt_views\<close>) and show
    that null readings are ignored and that the two dispatch tables agree.
  \<^item> \<open>Weather\<close>: \<open>Weather.tsx\<close>: records \<open>weather_data\<close>, \<open>owm_data\<close> and
    \<open>weather_state\<close> (with the list of requests in flight and the number of pending
    geolocation callbacks), \<open>we_fetch_start\<close> and \<open>we_complete\<close> (\<open>fetchWeather\<close>
    split at its \<open>await\<close>; the outcome \<open>http_outcome\<close> of a request is an input),
    \<open>we_parse\<close>, \<open>we_query_effect\<close>, \<open>we_geo_callback\<close>, \<open>we_mount\<close>,
    \<open>we_getWeatherIcon\<close>, \<open>we_render\<close>, the snapshot panel \<open>we_panel\<close> and
    \<open>we_screen\<close> (numbers as \<open>String(n)\<close>, \<open>show_int\<close> of the prelude), \<open>we_step\<close>
    (input, submit, position, and the settling of any pending request, so responses settle
    in any order), \<open>we_run\<close>. The snapshot and panel of a response, whose temperature
    text reads back as the rounded temperature (C27), the error text of a failed one (C28), the error view
    has no way out (C29), a stale position overwrites a later search (C30), one request
    in flight without geolocation (C31), resubmitting is a no-op (C32), rounding (C33).
  \<^item> \<open>App\<close>: the composition. \<open>widget\<close> is the component \<open>renderCurrentView\<close>
    mounts, \<open>mount_widget\<close> its fresh state, \<open>widget_step\<close> delivers an event to the
    widget it is meant for, \<open>app_step\<close> keeps the widget when the orientation selects
    the same one and remounts otherwise; events for a widget that is not mounted are
    dropped, as the widgets' effect cleanups clear their intervals on unmount. Leaving a
    widget and returning to it remounts it fresh, as the spec's discard invariant says
    (C34).
  \<^item> \<open>Router\<close>: \<open>App.tsx\<close>: \<open>navLinks\<close>, \<open>route_match\<close> and \<open>app_route\<close> (the
    \<open>Routes\<close>, matched as React Router v6 does: case-insensitively, with any number of
    trailing slashes), the rendered
    component \<open>mounted\<close> and \<open>mount_page\<close>, the \<open>BrowserRouter\<close> state \<open>router\<close>
    (location and history), \<open>rt_render\<close>, \<open>rt_load\<close>, and \<open>rt_step\<close> for link
    clicks (push, or replace on the current location), Back, Forward, reloads, typed URLs
    and widget events. A link to the current location changes nothing, and a link away
    and Back remounts the widget fresh (C26); each link's page is reached by exactly the
    paths equal to the link's path up to case and trailing slashes (C35).

  \<^bold>\<open>Bounds and fuel.\<close> No loop of the program can fail to terminate: every run is a
  fold over a finite list of events, and the other recursions (\<open>checks_within\<close>, which
  bounds the gaps between the alarm's check instants, \<open>show_nat\<close>, \<open>split_on\<close>) are
  structural or have a measure. The one loop the code leaves open, the Timer's
  interval, which keeps ticking until its effect clears it, is
  \<^theory_text>\<open>partial_function (option)\<close> (\<open>tm_interval\<close>), and C36 proves that it returns on every
  state of the invariant, after \<open>timeLeft / 1000\<close> ticks. No fuel is needed. Times are
  JavaScript numbers of at most a few days in milliseconds, far
  below \<open>2^53\<close>, so they are exact integers and no wrap-around is modelled.

  \<^bold>\<open>Findings.\<close> The + and - buttons set the remaining time to the new duration instead
  of shifting it (C5); a check gap above one second misses the alarm (C18); the Screen
  Orientation API reaches all four views without tilt permission (C23), and the tilt
  bands differ from their comments (lemma \<open>or_tilt_views\<close>); every sensor reading
  restarts the fade (C25); the
  weather error view has no search form and so cannot be left (C29); a stale
  geolocation response overwrites a later search (C30); a repeated search issues no
  request (C32); the temperature unit is a doubly encoded degree sign, shown as
  U+00C2 U+00B0 C, and the wind speed, in metres per second with \<open>units=metric\<close>, is
  labelled km/h (C27). The city is interpolated into the request URL without encoding.

  \<^bold>\<open>Not modelled.\<close> Styling, icons, the particle background (\<open>components/ui\<close>, not in
  the sources), the toaster and query-client providers, which hold no application state,
  and the pages \<open>Index\<close> and \<open>NotFound\<close>, whose sources are not in the repository
  snapshot and which the router takes as stateless; the
  \<open>toLocaleTimeString\<close> and \<open>toLocaleDateString\<close> displays of the alarm clock and
  the weather date line, whose text is the browser's locale data (for \<open>en-US\<close> with
  \<open>hour12: false\<close>, even the hour cycle differs between engines); the server, the
  network and \<open>JSON.parse\<close>, whose results are inputs; the removal of listeners at
  unmount.
\<close>

end
